theory Spec2Isabelle
  imports Complex_Main "HOL-Library.Word" "HOL-Library.Stream"
begin

section \<open>Results of a call\<close>

text \<open>
  A Go call either returns, or panics (a run-time error that unwinds the caller), or never
  returns. \<open>andThen\<close> sequences two calls: a panic or a divergence of the first is the
  result of the whole.
\<close>

datatype 'a outcome = Return 'a | Panic string | Diverge

fun andThen :: "'a outcome \<Rightarrow> ('a \<Rightarrow> 'b outcome) \<Rightarrow> 'b outcome" where
  "andThen (Return v) k = k v"
| "andThen (Panic m) k = Panic m"
| "andThen Diverge k = Diverge"

text \<open>
  Go's \<open>int\<close> is modelled as \<open>int\<close>: the sizes and coordinates of a canvas that can be
  allocated are far from the 64-bit limits. Go's \<open>/\<close> and \<open>%\<close> on integers truncate
  towards zero (\<open>quo\<close>, \<open>rem\<close>); \<open>go_div\<close> is the division by a value that is not a
  constant, which panics on zero.
\<close>

definition quo :: "int \<Rightarrow> int \<Rightarrow> int" where
  "quo a b = sgn a * sgn b * (\<bar>a\<bar> div \<bar>b\<bar>)"

definition rem :: "int \<Rightarrow> int \<Rightarrow> int" where
  "rem a b = a - b * quo a b"

definition go_div :: "int \<Rightarrow> int \<Rightarrow> int outcome" where
  "go_div a b = (if b = 0 then Panic ''runtime error: integer divide by zero''
                 else Return (quo a b))"

text \<open>
  Where a function takes coordinates of any size (\<open>drawBeeline\<close>, \<open>New\<close>), the
  arithmetic of the machine is written out, for a platform where \<open>int\<close> has 64 bits.
  \<open>int64 n\<close> is \<open>n\<close> wrapped into \<open>[-2 ^ 63, 2 ^ 63)\<close>. \<open>float64 n\<close> is the integer
  \<open>n\<close> rounded to a \<open>float64\<close>: to 53 significant bits, to the nearest value, a tie to
  the even one; \<open>float64_ulp\<close> is the distance between two neighbours at that size. A
  \<open>float64\<close> that holds an integer is modelled by that integer, and the \<open>float64\<close> sum
  or difference of two of them is the rounded exact one.
\<close>

definition int64 :: "int \<Rightarrow> int" where
  "int64 n = (n + 2 ^ 63) mod 2 ^ 64 - 2 ^ 63"

function float64_ulp :: "nat \<Rightarrow> nat" where
  "float64_ulp n = (if n < 2 ^ 53 then 1 else 2 * float64_ulp (n div 2))"
  by pat_completeness auto
termination
  by (relation "measure id") auto

declare float64_ulp.simps [simp del]

definition float64 :: "int \<Rightarrow> int" where
  "float64 n =
     (let m = nat \<bar>n\<bar>;
          u = float64_ulp m;
          q = m div u;
          r = m mod u;
          q' = (if 2 * r > u \<or> (2 * r = u \<and> odd q) then q + 1 else q)
      in sgn n * int (q' * u))"

section \<open>Colours and the pixel buffer (image/color, image)\<close>

text \<open>\<open>color.RGBA\<close>: four \<open>uint8\<close> channels.\<close>

record RGBA =
  R :: "8 word"
  G :: "8 word"
  B :: "8 word"
  A :: "8 word"

text \<open>\<open>Point\<close>, a struct of two \<open>int\<close> fields \<open>X\<close> and \<open>Y\<close>, as the line drawing uses it.\<close>

record Point =
  X :: int
  Y :: int

text \<open>\<open>image.Rectangle\<close>, with \<open>Min\<close> and \<open>Max\<close> flattened into four coordinates.\<close>

record Rectangle =
  MinX :: int
  MinY :: int
  MaxX :: int
  MaxY :: int

definition In :: "int \<Rightarrow> int \<Rightarrow> Rectangle \<Rightarrow> bool" where
  "In x y r = (MinX r \<le> x \<and> x < MaxX r \<and> MinY r \<le> y \<and> y < MaxY r)"

text \<open>
  \<open>image.NRGBA\<close>: the bounds and, for each coordinate, the colour stored there (the
  byte slice \<open>Pix\<close> read four bytes at a time).
\<close>

record NRGBA =
  Pix :: "int \<Rightarrow> int \<Rightarrow> RGBA"
  Rect :: Rectangle

text \<open>
  \<open>color.NRGBAModel.Convert\<close> on a \<open>color.RGBA\<close>: the 16-bit channels are
  \<open>c | c << 8\<close>; an opaque colour keeps its channels, a transparent one becomes zero, any
  other is divided by its alpha.
\<close>

definition nrgbaModel :: "RGBA \<Rightarrow> RGBA" where
  "nrgbaModel c =
     (let r = unat (R c) * 257; g = unat (G c) * 257; b = unat (B c) * 257;
          a = unat (A c) * 257
      in if a = 65535 then \<lparr>R = of_nat (r div 256), G = of_nat (g div 256),
                              B = of_nat (b div 256), A = 255\<rparr>
         else if a = 0 then \<lparr>R = 0, G = 0, B = 0, A = 0\<rparr>
         else \<lparr>R = of_nat ((r * 65535) div a div 256), G = of_nat ((g * 65535) div a div 256),
               B = of_nat ((b * 65535) div a div 256), A = of_nat (a div 256)\<rparr>)"

text \<open>\<open>(*image.NRGBA).Set\<close>: a coordinate outside the bounds is ignored.\<close>

definition NRGBA_Set :: "int \<Rightarrow> int \<Rightarrow> RGBA \<Rightarrow> NRGBA \<Rightarrow> NRGBA" where
  "NRGBA_Set x y c p =
     (if \<not> In x y (Rect p) then p
      else p\<lparr>Pix := (Pix p)(x := (Pix p x)(y := nrgbaModel c))\<rparr>)"

definition image_Rect :: "int \<Rightarrow> int \<Rightarrow> int \<Rightarrow> int \<Rightarrow> Rectangle" where
  "image_Rect x0 y0 x1 y1 =
     \<lparr>MinX = min x0 x1, MinY = min y0 y1, MaxX = max x0 x1, MaxY = max y0 y1\<rparr>"

section \<open>The random source (math/rand)\<close>

text \<open>
  The state of the random source is the sequence of the draws to come. \<open>Intn n\<close> takes
  the next draw into \<open>[0, n)\<close> and panics when \<open>n \<le> 0\<close>, as \<open>rand.Intn\<close> does. The
  package-level source, the variable \<open>r\<close> and the sources seeded from the clock all draw
  from this one sequence.
\<close>

type_synonym rand = "nat stream"

definition Intn :: "int \<Rightarrow> rand \<Rightarrow> (int \<times> rand) outcome" where
  "Intn n r = (if n \<le> 0 then Panic ''invalid argument to Intn''
               else Return (int (shd r) mod n, stl r))"

section \<open>The canvas\<close>

datatype error =
  errors_New string
| ReadFile_error string
| ParseFont_error string
| DrawString_error string
| Encode_error string

record CaptchaImage =
  nrgba :: NRGBA
  width :: int
  height :: int
  Complex' :: int
  Error :: "error option"

definition ImageFormatPng :: int where "ImageFormatPng = 0"
definition ImageFormatJpeg :: int where "ImageFormatJpeg = 1"
definition ImageFormatGif :: int where "ImageFormatGif = 2"

definition CaptchaComplexLower :: int where "CaptchaComplexLower = 0"
definition CaptchaComplexMedium :: int where "CaptchaComplexMedium = 1"
definition CaptchaComplexHigh :: int where "CaptchaComplexHigh = 2"

definition txtChars :: string where
  "txtChars = ''ABCDEFGHIJKLMNOPQRSTUVWXYZabcdefghijklmnopqrstuvwxyz0123456789''"

section \<open>What the package calls and does not define\<close>

text \<open>
  \<open>truetype.Font\<close>: the zero value \<open>&truetype.Font{}\<close>, or a font parsed from the bytes
  of a file. \<open>Context\<close> is the part of \<open>freetype.Context\<close> that changes between two calls
  of \<open>DrawString\<close>: source colour, font size, font and destination.
\<close>

datatype truetype_Font = ZeroFont | ParsedFont string

record 'f Context =
  ctx_src :: RGBA
  ctx_fontSize :: 'f
  ctx_font :: truetype_Font
  ctx_dst :: NRGBA

type_synonym Writer = string

text \<open>
  The environment of the package, taken as a parameter:
  \<^item> \<open>float64\<close> is the type \<open>'f\<close> with the operations the code uses: conversion from
    \<open>int\<close>, \<open>+\<close>, \<open>*\<close>, \<open>/\<close>, \<open><\<close>, \<open>==\<close>, \<open>math.Sin\<close>, the constants \<open>math.Pi\<close>,
    \<open>2 * math.Pi\<close> and \<open>0.8\<close>, and the conversion \<open>int(x)\<close>;
  \<^item> \<open>uint8_ovf\<close> is what the platform makes of \<open>uint8(x)\<close> for a \<open>float64\<close> outside
    \<open>[0, 255]\<close> (Go leaves it to the implementation);
  \<^item> \<open>Random\<close> is the package's \<open>Random(min, max int64) float64\<close>, whose source is
    missing;
  \<^item> \<open>fontFamily\<close> is the package-level list of font files;
  \<^item> \<open>ReadFile\<close> is \<open>ioutil.ReadFile\<close>, \<open>ParseFont\<close> is \<open>freetype.ParseFont\<close>,
    \<open>DrawString\<close> is \<open>(*freetype.Context).DrawString\<close>; each returns its value and its
    error, as in Go;
  \<^item> the three encoders are \<open>png.Encode\<close>, \<open>jpeg.Encode\<close> (with the quality) and
    \<open>gif.Encode\<close> (with the number of colours); they receive the writer and the pointer
    to the pixel buffer, and return both with the error;
  \<^item> \<open>runes\<close> is Go's \<open>range\<close> over a string: the byte index and the string of each
    code point.
\<close>

record 'f env =
  f_of_int :: "int \<Rightarrow> 'f"
  f_add :: "'f \<Rightarrow> 'f \<Rightarrow> 'f"
  f_mul :: "'f \<Rightarrow> 'f \<Rightarrow> 'f"
  f_div :: "'f \<Rightarrow> 'f \<Rightarrow> 'f"
  f_lt :: "'f \<Rightarrow> 'f \<Rightarrow> bool"
  f_eq :: "'f \<Rightarrow> 'f \<Rightarrow> bool"
  f_sin :: "'f \<Rightarrow> 'f"
  f_pi :: 'f
  f_2pi :: 'f
  f_0_8 :: 'f
  f_trunc :: "'f \<Rightarrow> int"
  uint8_ovf :: "int \<Rightarrow> 8 word"
  Random :: "int \<Rightarrow> int \<Rightarrow> rand \<Rightarrow> ('f \<times> rand) outcome"
  fontFamily :: "string list"
  ReadFile :: "string \<Rightarrow> string \<times> error option"
  ParseFont :: "string \<Rightarrow> truetype_Font \<times> error option"
  DrawString :: "'f Context \<Rightarrow> string \<Rightarrow> int \<Rightarrow> int \<Rightarrow> NRGBA \<times> error option"
  png_Encode :: "Writer \<Rightarrow> NRGBA \<Rightarrow> Writer \<times> NRGBA \<times> error option"
  jpeg_Encode :: "Writer \<Rightarrow> NRGBA \<Rightarrow> int \<Rightarrow> Writer \<times> NRGBA \<times> error option"
  gif_Encode :: "Writer \<Rightarrow> NRGBA \<Rightarrow> int \<Rightarrow> Writer \<times> NRGBA \<times> error option"
  runes :: "string \<Rightarrow> (int \<times> string) list"

section \<open>New and SaveImage\<close>

text \<open>
  What \<open>draw.Draw\<close> with \<open>draw.Src\<close> stores in an \<open>image.NRGBA\<close> for a uniform source
  of colour \<open>c\<close> (\<open>SetRGBA64\<close> of the 16-bit channels \<open>c | c << 8\<close>): the channels are
  divided by the alpha unless the alpha is zero or full.
\<close>

definition setRGBA64Model :: "RGBA \<Rightarrow> RGBA" where
  "setRGBA64Model c =
     (let r = unat (R c) * 257; g = unat (G c) * 257; b = unat (B c) * 257;
          a = unat (A c) * 257
      in if a \<noteq> 0 \<and> a \<noteq> 65535
         then \<lparr>R = of_nat ((r * 65535) div a div 256), G = of_nat ((g * 65535) div a div 256),
               B = of_nat ((b * 65535) div a div 256), A = of_nat (a div 256)\<rparr>
         else \<lparr>R = of_nat (r div 256), G = of_nat (g div 256), B = of_nat (b div 256),
               A = of_nat (a div 256)\<rparr>)"

text \<open>
  \<open>canvas w h bgColor\<close> is the struct that \<open>New\<close> returns: a pixel buffer with the
  bounds \<open>image.Rect(0, 0, w, h)\<close> (\<open>image.Rect\<close> orders its corners), filled with the
  background by \<open>draw.Draw\<close>; a coordinate outside the bounds reads as the zero colour.
  \<open>New\<close> panics in \<open>image.NewNRGBA\<close> when four bytes for each pixel of the bounds do
  not fit an \<open>int\<close>; the allocation is taken to succeed otherwise.
\<close>

definition canvas :: "int \<Rightarrow> int \<Rightarrow> RGBA \<Rightarrow> CaptchaImage" where
  "canvas w h bgColor =
     (let r = image_Rect 0 0 w h;
          m = \<lparr>Pix = (\<lambda>x y. if In x y r then setRGBA64Model bgColor
                              else \<lparr>R = 0, G = 0, B = 0, A = 0\<rparr>),
               Rect = r\<rparr>
      in \<lparr>nrgba = m, width = w, height = h, Complex' = 0, Error = None\<rparr>)"

definition New :: "int \<Rightarrow> int \<Rightarrow> RGBA \<Rightarrow> CaptchaImage outcome" where
  "New w h bgColor =
     (let r = image_Rect 0 0 w h;
          dx = int64 (MaxX r - MinX r);
          dy = int64 (MaxY r - MinY r)
      in if dx < 0 \<or> dy < 0 \<or> 4 * dx \<ge> 2 ^ 64 \<or> 4 * dx * dy \<ge> 2 ^ 63
         then Panic ''image: NewNRGBA Rectangle has huge or negative dimensions''
         else Return (canvas w h bgColor))"

text \<open>
  \<open>SaveImage\<close> returns the error, the writer and the canvas after the call.
\<close>

definition SaveImage ::
  "'f env \<Rightarrow> CaptchaImage \<Rightarrow> Writer \<Rightarrow> int \<Rightarrow> error option \<times> Writer \<times> CaptchaImage" where
  "SaveImage env captcha w imageFormat =
     (if imageFormat = ImageFormatPng then
        (case png_Encode env w (nrgba captcha) of
           (w', m, e) \<Rightarrow> (e, w', captcha\<lparr>nrgba := m\<rparr>))
      else if imageFormat = ImageFormatJpeg then
        (case jpeg_Encode env w (nrgba captcha) 100 of
           (w', m, e) \<Rightarrow> (e, w', captcha\<lparr>nrgba := m\<rparr>))
      else if imageFormat = ImageFormatGif then
        (case gif_Encode env w (nrgba captcha) 256 of
           (w', m, e) \<Rightarrow> (e, w', captcha\<lparr>nrgba := m\<rparr>))
      else (Some (errors_New ''not supported image format''), w, captcha))"

section \<open>Colours and text at random (utils.go)\<close>

definition randColor :: "rand \<Rightarrow> (RGBA \<times> rand) outcome" where
  "randColor r =
     andThen (Intn 255 r) (\<lambda>(red, r1).
     andThen (Intn 255 r1) (\<lambda>(green, r2).
     andThen (Intn 255 r2) (\<lambda>(blue0, r3).
       let blue1 = (if red + green > 400 then 0 else 400 - green - red);
           blue = (if blue1 > 255 then 255 else blue1)
       in Return (\<lparr>R = word_of_int red, G = word_of_int green, B = word_of_int blue,
                    A = 255\<rparr>, r3))))"

text \<open>
  \<open>uint8(x)\<close> for a \<open>float64\<close> that holds an integer. In \<open>randDeepColor\<close> the
  \<open>float64\<close> values are differences, minima and absolute values of integers below 285 and
  are exact, so they are integers here.
\<close>

definition uint8_of_float64 :: "(int \<Rightarrow> 8 word) \<Rightarrow> int \<Rightarrow> 8 word" where
  "uint8_of_float64 ovf v = (if 0 \<le> v \<and> v \<le> 255 then word_of_int v else ovf v)"

definition randDeepColor :: "(int \<Rightarrow> 8 word) \<Rightarrow> rand \<Rightarrow> (RGBA \<times> rand) outcome" where
  "randDeepColor ovf r =
     andThen (randColor r) (\<lambda>(randColor, r1).
     andThen (Intn 255 r1) (\<lambda>(k, r2).
       let increase = 30 + k;
           red = \<bar>min (uint (R randColor) - increase) 255\<bar>;
           green = \<bar>min (uint (G randColor) - increase) 255\<bar>;
           blue = \<bar>min (uint (B randColor) - increase) 255\<bar>
       in Return (\<lparr>R = uint8_of_float64 ovf red, G = uint8_of_float64 ovf green,
                    B = uint8_of_float64 ovf blue, A = 255\<rparr>, r2)))"

definition RandLightColor :: "rand \<Rightarrow> (RGBA \<times> rand) outcome" where
  "RandLightColor r =
     andThen (Intn 55 r) (\<lambda>(k1, r1).
     andThen (Intn 55 r1) (\<lambda>(k2, r2).
     andThen (Intn 55 r2) (\<lambda>(k3, r3).
       Return (\<lparr>R = word_of_int (k1 + 200), G = word_of_int (k2 + 200),
                 B = word_of_int (k3 + 200), A = 255\<rparr>, r3))))"

fun RandText_loop :: "nat \<Rightarrow> string \<Rightarrow> rand \<Rightarrow> (string \<times> rand) outcome" where
  "RandText_loop 0 text r = Return (text, r)"
| "RandText_loop (Suc n) text r =
     andThen (Intn (int (length txtChars)) r) (\<lambda>(k, r1).
       RandText_loop n (text @ [txtChars ! nat k]) r1)"

definition RandText :: "int \<Rightarrow> rand \<Rightarrow> (string \<times> rand) outcome" where
  "RandText num r = RandText_loop (nat num) [] r"

section \<open>RandFontFamily\<close>

definition RandFontFamily ::
  "'f env \<Rightarrow> rand \<Rightarrow> ((truetype_Font \<times> error option) \<times> rand) outcome" where
  "RandFontFamily env r =
     andThen (Intn (int (length (fontFamily env))) r) (\<lambda>(k, r1).
       let fontFile = fontFamily env ! nat k in
       case ReadFile env fontFile of (fontBytes, err) \<Rightarrow>
         if err \<noteq> None then Return ((ZeroFont, err), r1)
         else case ParseFont env fontBytes of (f, err2) \<Rightarrow>
           if err2 \<noteq> None then Return ((ZeroFont, err2), r1)
           else Return ((f, None), r1))"

section \<open>DrawHollowLine\<close>

text \<open>
  \<open>x1\<close> and \<open>x2\<close> are \<open>float64\<close> in the source and hold integers (\<open>x1\<close> starts at an
  integer and is incremented); the loop runs over the integer, and \<open>f_of_int\<close> gives the
  \<open>float64\<close> the body computes with.
\<close>

definition hollow_column ::
  "'f env \<Rightarrow> CaptchaImage \<Rightarrow> 'f \<Rightarrow> int \<Rightarrow> RGBA \<Rightarrow> int \<Rightarrow> NRGBA \<Rightarrow> NRGBA" where
  "hollow_column env captcha multiple w lineColor x img =
     (let x1 = f_of_int env x;
          y0 = f_mul env
                 (f_sin env (f_div env (f_mul env (f_mul env x1 (f_pi env)) multiple)
                                       (f_of_int env (width captcha))))
                 (f_of_int env (quo (height captcha) 3));
          y = (if f_lt env multiple (f_of_int env 0)
               then f_add env y0 (f_of_int env (quo (height captcha) 2)) else y0);
          img1 = NRGBA_Set x (f_trunc env y) lineColor img
      in fold (\<lambda>i. NRGBA_Set x (f_trunc env y + i) lineColor) [0..w] img1)"

definition DrawHollowLine ::
  "'f env \<Rightarrow> CaptchaImage \<Rightarrow> rand \<Rightarrow> (CaptchaImage \<times> rand) outcome" where
  "DrawHollowLine env captcha r =
     (if Error captcha \<noteq> None then Return (captcha, r)
      else
        let first = quo (width captcha) 20;
            end' = first * 19;
            lineColor = \<lparr>R = 245, G = 250, B = 251, A = 255\<rparr>
        in andThen (Intn first r) (\<lambda>(x1, r1).
           andThen (Intn first r1) (\<lambda>(k2, r2).
           let x2 = k2 + end' in
           andThen (Intn 5 r2) (\<lambda>(k, r3).
           let multiple0 = f_div env (f_of_int env (k + 3)) (f_of_int env 5);
               multiple = (if rem (f_trunc env (f_mul env multiple0 (f_of_int env 10))) 3 = 0
                           then f_mul env multiple0 (f_of_int env (- 1)) else multiple0);
               w = quo (height captcha) 20
           in Return (captcha\<lparr>nrgba :=
                 fold (hollow_column env captcha multiple w lineColor) [x1..x2 - 1]
                   (nrgba captcha)\<rparr>, r3)))))"

section \<open>DrawSineLine\<close>

definition sine_py :: "'f env \<Rightarrow> int \<Rightarrow> 'f \<Rightarrow> 'f \<Rightarrow> 'f \<Rightarrow> int \<Rightarrow> int \<Rightarrow> 'f" where
  "sine_py env a b f w wd px =
     f_add env
       (f_add env (f_mul env (f_of_int env a)
                             (f_sin env (f_add env (f_mul env w (f_of_int env px)) f))) b)
       (f_div env (f_of_int env wd) (f_of_int env 5))"

text \<open>The body of the loop over \<open>px\<close>: \<open>i\<close> runs from \<open>height / 5\<close> down to \<open>1\<close>.\<close>

definition sine_column ::
  "'f env \<Rightarrow> CaptchaImage \<Rightarrow> int \<Rightarrow> 'f \<Rightarrow> 'f \<Rightarrow> 'f \<Rightarrow> RGBA \<Rightarrow> int \<Rightarrow> NRGBA \<Rightarrow> NRGBA" where
  "sine_column env captcha a b f w c px img =
     (if \<not> f_eq env w (f_of_int env 0) then
        let py = sine_py env a b f w (width captcha) px
        in fold (\<lambda>i. NRGBA_Set (px + i) (f_trunc env py) c)
                (rev [1..quo (height captcha) 5]) img
      else img)"

definition DrawSineLine ::
  "'f env \<Rightarrow> CaptchaImage \<Rightarrow> rand \<Rightarrow> (CaptchaImage \<times> rand) outcome" where
  "DrawSineLine env captcha r =
     (if Error captcha \<noteq> None then Return (captcha, r)
      else
        andThen (Intn (quo (height captcha) 2) r) (\<lambda>(a, r1).
        andThen (Random env (quo (- height captcha) 4) (quo (height captcha) 4) r1) (\<lambda>(b, r2).
        andThen (Random env (quo (- height captcha) 4) (quo (height captcha) 4) r2) (\<lambda>(f, r3).
        andThen (if height captcha > quo (width captcha) 2
                 then Random env (quo (width captcha) 2) (height captcha) r3
                 else Random env (height captcha) (quo (width captcha) 2) r3) (\<lambda>(t, r4).
        let w = f_div env (f_2pi env) t in
        andThen (Random env (f_trunc env (f_mul env (f_of_int env (width captcha)) (f_0_8 env)))
                            (width captcha) r4) (\<lambda>(p2, r5).
        let px2 = f_trunc env p2 in
        andThen (Intn 150 r5) (\<lambda>(cr, r6).
        andThen (Intn 150 r6) (\<lambda>(cg, r7).
        andThen (Intn 150 r7) (\<lambda>(cb, r8).
        let c = \<lparr>R = word_of_int cr, G = word_of_int cg, B = word_of_int cb, A = 255\<rparr>
        in Return (captcha\<lparr>nrgba :=
              fold (sine_column env captcha a b f w c) [0..px2 - 1] (nrgba captcha)\<rparr>,
              r8))))))))))"

section \<open>drawBeeline\<close>

text \<open>
  The loop of \<open>drawBeeline\<close>. The coordinates are 64-bit integers; \<open>dx\<close>, \<open>dy\<close>, \<open>err\<close>
  and \<open>e2\<close> are \<open>float64\<close> and hold integers, so every result of a \<open>float64\<close> operation
  is rounded by \<open>float64\<close>. The loop has no bound of its own, so it is a partial
  function: \<open>None\<close> is a loop that never returns.
\<close>

partial_function (option) beeline_loop ::
  "NRGBA \<Rightarrow> Point \<Rightarrow> Point \<Rightarrow> int \<Rightarrow> int \<Rightarrow> int \<Rightarrow> int \<Rightarrow> int \<Rightarrow> RGBA \<Rightarrow> NRGBA option" where
  "beeline_loop img point1 point2 dx dy sx sy err lineColor =
     (let img1 = NRGBA_Set (X point1) (Y point1) lineColor img;
          img2 = NRGBA_Set (int64 (X point1 + 1)) (Y point1) lineColor img1;
          img3 = NRGBA_Set (int64 (X point1 - 1)) (Y point1) lineColor img2;
          img4 = NRGBA_Set (int64 (X point1 + 2)) (Y point1) lineColor img3;
          img5 = NRGBA_Set (int64 (X point1 - 2)) (Y point1) lineColor img4
      in if X point1 = X point2 \<and> Y point1 = Y point2 then Some img5
         else
           let e2 = float64 (err * 2);
               err1 = (if e2 > - dy then float64 (err - dy) else err);
               p1 = (if e2 > - dy then point1\<lparr>X := int64 (X point1 + sx)\<rparr> else point1);
               err2 = (if e2 < dx then float64 (err1 + dx) else err1);
               p2 = (if e2 < dx then p1\<lparr>Y := int64 (Y p1 + sy)\<rparr> else p1)
           in beeline_loop img5 p2 point2 dx dy sx sy err2 lineColor)"

definition drawBeeline :: "CaptchaImage \<Rightarrow> Point \<Rightarrow> Point \<Rightarrow> RGBA \<Rightarrow> CaptchaImage outcome" where
  "drawBeeline captcha point1 point2 lineColor =
     (if Error captcha \<noteq> None then Return captcha
      else
        let dx = \<bar>float64 (int64 (X point1 - X point2))\<bar>;
            dy = \<bar>float64 (int64 (Y point2 - Y point1))\<bar>;
            sx = (if X point1 \<ge> X point2 then - 1 else 1);
            sy = (if Y point1 \<ge> Y point2 then - 1 else 1);
            err = float64 (dx - dy)
        in case beeline_loop (nrgba captcha) point1 point2 dx dy sx sy err lineColor of
             None \<Rightarrow> Diverge
           | Some img \<Rightarrow> Return (captcha\<lparr>nrgba := img\<rparr>))"

section \<open>DrawLine\<close>

fun DrawLine_loop ::
  "(int \<Rightarrow> 8 word) \<Rightarrow> int \<Rightarrow> int \<Rightarrow> int \<Rightarrow> int list \<Rightarrow> CaptchaImage \<Rightarrow> rand
     \<Rightarrow> (CaptchaImage \<times> rand) outcome" where
  "DrawLine_loop ovf first end' y [] captcha r = Return (captcha, r)"
| "DrawLine_loop ovf first end' y (i # rest) captcha r =
     andThen (Intn first r) (\<lambda>(x1, r1).
     andThen (Intn y r1) (\<lambda>(y1, r2).
     andThen (Intn first r2) (\<lambda>(k2, r3).
     andThen (Intn y r3) (\<lambda>(y2, r4).
     andThen (Intn y r4) (\<lambda>(k5, r5).
     andThen (Intn y r5) (\<lambda>(k6, r6).
     let point1 = \<lparr>X = x1, Y = (if rem i 2 = 0 then k5 + y * 2 else k5 + y * rem i 2)\<rparr>;
         point2 = \<lparr>X = k2 + end', Y = (if rem i 2 = 0 then k6 else k6 + y * 2)\<rparr>
     in andThen (randDeepColor ovf r6) (\<lambda>(lineColor, r7).
        andThen (drawBeeline captcha point1 point2 lineColor) (\<lambda>captcha'.
          DrawLine_loop ovf first end' y rest captcha' r7))))))))"

definition DrawLine ::
  "'f env \<Rightarrow> CaptchaImage \<Rightarrow> rand \<Rightarrow> int \<Rightarrow> (CaptchaImage \<times> rand) outcome" where
  "DrawLine env captcha r num =
     (if Error captcha \<noteq> None then Return (captcha, r)
      else
        let first = quo (width captcha) 10;
            end' = first * 9;
            y = quo (height captcha) 3
        in DrawLine_loop (uint8_ovf env) first end' y [0..num - 1] captcha r)"

section \<open>DrawBorder\<close>

definition DrawBorder :: "CaptchaImage \<Rightarrow> RGBA \<Rightarrow> CaptchaImage" where
  "DrawBorder captcha borderColor =
     (if Error captcha \<noteq> None then captcha
      else
        let img1 = fold (\<lambda>x img. NRGBA_Set x (height captcha - 1) borderColor
                                    (NRGBA_Set x 0 borderColor img))
                        [0..width captcha - 1] (nrgba captcha);
            img2 = fold (\<lambda>y img. NRGBA_Set (width captcha - 1) y borderColor
                                    (NRGBA_Set 0 y borderColor img))
                        [0..height captcha - 1] img1
        in captcha\<lparr>nrgba := img2\<rparr>)"

section \<open>DrawNoise\<close>

fun DrawNoise_loop ::
  "int \<Rightarrow> int \<Rightarrow> int \<Rightarrow> nat \<Rightarrow> NRGBA \<Rightarrow> rand \<Rightarrow> (NRGBA \<times> rand) outcome" where
  "DrawNoise_loop wd ht maxSize 0 img r = Return (img, r)"
| "DrawNoise_loop wd ht maxSize (Suc n) img r =
     andThen (Intn wd r) (\<lambda>(rw, r1).
     andThen (Intn ht r1) (\<lambda>(rh, r2).
     andThen (randColor r2) (\<lambda>(c1, r3).
     let img1 = NRGBA_Set rw rh c1 img in
     andThen (Intn maxSize r3) (\<lambda>(size, r4).
       if rem size 3 = 0
       then andThen (randColor r4) (\<lambda>(c2, r5).
              DrawNoise_loop wd ht maxSize n (NRGBA_Set (rw + 1) (rh + 1) c2 img1) r5)
       else DrawNoise_loop wd ht maxSize n img1 r4))))"

definition DrawNoise ::
  "CaptchaImage \<Rightarrow> rand \<Rightarrow> int \<Rightarrow> (CaptchaImage \<times> rand) outcome" where
  "DrawNoise captcha r complex =
     (if Error captcha \<noteq> None then Return (captcha, r)
      else
        let density = (if complex = CaptchaComplexLower then 28
                       else if complex = CaptchaComplexMedium then 18
                       else if complex = CaptchaComplexHigh then 8 else 18);
            maxSize = quo (height captcha * width captcha) density
        in andThen (DrawNoise_loop (width captcha) (height captcha) maxSize (nat maxSize)
                      (nrgba captcha) r)
             (\<lambda>(img, r'). Return (captcha\<lparr>nrgba := img\<rparr>, r')))"

section \<open>DrawTextNoise\<close>

fun DrawTextNoise_loop ::
  "'f env \<Rightarrow> 'f \<Rightarrow> nat \<Rightarrow> CaptchaImage \<Rightarrow> rand \<Rightarrow> (CaptchaImage \<times> rand) outcome" where
  "DrawTextNoise_loop env rawFontSize 0 captcha r = Return (captcha, r)"
| "DrawTextNoise_loop env rawFontSize (Suc n) captcha r =
     andThen (Intn (width captcha) r) (\<lambda>(rw, r1).
     andThen (Intn (height captcha) r1) (\<lambda>(rh, r2).
     andThen (RandText 1 r2) (\<lambda>(text, r3).
     andThen (Intn 5 r3) (\<lambda>(k, r4).
     let fontSize = f_add env (f_div env rawFontSize (f_of_int env 2)) (f_of_int env k) in
     andThen (RandLightColor r4) (\<lambda>(col, r5).
     andThen (RandFontFamily env r5) (\<lambda>((f, err), r6).
       if err \<noteq> None then Return (captcha\<lparr>Error := err\<rparr>, r6)
       else
         case DrawString env
                \<lparr>ctx_src = col, ctx_fontSize = fontSize, ctx_font = f,
                 ctx_dst = nrgba captcha\<rparr> text rw rh of
           (img, err2) \<Rightarrow>
             if err2 \<noteq> None then Return (captcha\<lparr>nrgba := img, Error := err2\<rparr>, r6)
             else DrawTextNoise_loop env rawFontSize n (captcha\<lparr>nrgba := img\<rparr>) r6))))))"

definition DrawTextNoise ::
  "'f env \<Rightarrow> CaptchaImage \<Rightarrow> rand \<Rightarrow> int \<Rightarrow> (CaptchaImage \<times> rand) outcome" where
  "DrawTextNoise env captcha r complex =
     (if Error captcha \<noteq> None then Return (captcha, r)
      else
        let density = (if complex = CaptchaComplexLower then 2000
                       else if complex = CaptchaComplexMedium then 1500
                       else if complex = CaptchaComplexHigh then 1000 else 1500);
            maxSize = quo (height captcha * width captcha) density
        in andThen (Intn 7 r) (\<lambda>(k, r1).
           let rawFontSize = f_div env (f_of_int env (height captcha))
                 (f_add env (f_of_int env 1) (f_div env (f_of_int env k) (f_of_int env 10)))
           in DrawTextNoise_loop env rawFontSize (nat maxSize) captcha r1))"

section \<open>DrawText\<close>

fun DrawText_loop ::
  "'f env \<Rightarrow> int \<Rightarrow> (int \<times> string) list \<Rightarrow> CaptchaImage \<Rightarrow> rand
     \<Rightarrow> (CaptchaImage \<times> rand) outcome" where
  "DrawText_loop env fontWidth [] captcha r = Return (captcha, r)"
| "DrawText_loop env fontWidth ((i, s) # rest) captcha r =
     andThen (Intn 7 r) (\<lambda>(k, r1).
     let fontSize = f_div env (f_of_int env (height captcha))
           (f_add env (f_of_int env 1) (f_div env (f_of_int env k) (f_of_int env 9)))
     in
     andThen (randDeepColor (uint8_ovf env) r1) (\<lambda>(col, r2).
     andThen (RandFontFamily env r2) (\<lambda>((f, err), r3).
       if err \<noteq> None then Return (captcha\<lparr>Error := err\<rparr>, r3)
       else
         andThen (go_div fontWidth (f_trunc env fontSize)) (\<lambda>q.
         let x = fontWidth * i + q in
         andThen (Intn (quo (height captcha) 2) r3) (\<lambda>(k2, r4).
         let y = 5 + k2 + f_trunc env (f_div env fontSize (f_of_int env 2)) in
         case DrawString env
                \<lparr>ctx_src = col, ctx_fontSize = fontSize, ctx_font = f,
                 ctx_dst = nrgba captcha\<rparr> s x y of
           (img, err2) \<Rightarrow>
             if err2 \<noteq> None then Return (captcha\<lparr>nrgba := img, Error := err2\<rparr>, r4)
             else DrawText_loop env fontWidth rest (captcha\<lparr>nrgba := img\<rparr>) r4)))))"

definition DrawText ::
  "'f env \<Rightarrow> CaptchaImage \<Rightarrow> rand \<Rightarrow> string \<Rightarrow> (CaptchaImage \<times> rand) outcome" where
  "DrawText env captcha r text =
     (if Error captcha \<noteq> None then Return (captcha, r)
      else
        andThen (go_div (width captcha) (int (length text))) (\<lambda>fontWidth.
          DrawText_loop env fontWidth (runes env text) captcha r))"

section \<open>Concrete canvases and a concrete environment\<close>

text \<open>The colour of a pixel of the canvas a call returns; \<open>None\<close> when it does not return.\<close>

definition pixelAfter :: "CaptchaImage outcome \<Rightarrow> int \<Rightarrow> int \<Rightarrow> RGBA option" where
  "pixelAfter res x y = (case res of Return c \<Rightarrow> Some (Pix (nrgba c) x y) | _ \<Rightarrow> None)"

definition canvasOf :: "(CaptchaImage \<times> rand) outcome \<Rightarrow> CaptchaImage outcome" where
  "canvasOf res = andThen res (\<lambda>(c, r). Return c)"

definition black :: RGBA where
  "black = \<lparr>R = 0, G = 0, B = 0, A = 255\<rparr>"

definition white :: RGBA where
  "white = \<lparr>R = 255, G = 255, B = 255, A = 255\<rparr>"

definition grey :: RGBA where
  "grey = \<lparr>R = 100, G = 100, B = 100, A = 255\<rparr>"

text \<open>A canvas on which a renderer error has been stored.\<close>

definition failedCanvas :: CaptchaImage where
  "failedCanvas = (canvas 4 4 white)\<lparr>Error := Some (DrawString_error ''draw'')\<rparr>"

text \<open>
  Modelled from the spec: \<open>Random\<close>, which \<open>DrawSineLine\<close> calls and whose source is
  missing. The spec has it "uniform in [min, max]" with \<open>min > max\<close> a precondition
  violation; here it takes the next draw into that range.
\<close>

definition Random_spec :: "int \<Rightarrow> int \<Rightarrow> rand \<Rightarrow> (real \<times> rand) outcome" where
  "Random_spec lo hi r =
     (if lo > hi then Panic ''invalid range''
      else Return (of_int (lo + int (shd r) mod (hi - lo + 1)), stl r))"

definition trunc_real :: "real \<Rightarrow> int" where
  "trunc_real x = (if 0 \<le> x then \<lfloor>x\<rfloor> else \<lceil>x\<rceil>)"

text \<open>Go's \<open>range\<close> over a text of ASCII characters: one code point for each byte.\<close>

definition ascii_runes :: "string \<Rightarrow> (int \<times> string) list" where
  "ascii_runes s = zip (map int [0..<length s]) (map (\<lambda>c. [c]) s)"

text \<open>
  An environment to run the model in: \<open>float64\<close> read as a real number, the conversion of
  an out-of-range value to \<open>uint8\<close> by truncation to eight bits, one registered font, a
  renderer that leaves the buffer as it is and encoders that write a tag; none of them
  fails.
\<close>

definition env0 :: "real env" where
  "env0 = \<lparr>f_of_int = of_int, f_add = (+), f_mul = (*), f_div = (/), f_lt = (<), f_eq = (=),
            f_sin = sin, f_pi = pi, f_2pi = 2 * pi, f_0_8 = 8 / 10, f_trunc = trunc_real,
            uint8_ovf = word_of_int,
            Random = Random_spec,
            fontFamily = [''a.ttf''],
            ReadFile = (\<lambda>p. (p, None)),
            ParseFont = (\<lambda>b. (ParsedFont b, None)),
            DrawString = (\<lambda>ctx s x y. (ctx_dst ctx, None)),
            png_Encode = (\<lambda>w m. (w @ ''png'', m, None)),
            jpeg_Encode = (\<lambda>w m q. (w @ ''jpeg'', m, None)),
            gif_Encode = (\<lambda>w m n. (w @ ''gif'', m, None)),
            runes = ascii_runes\<rparr>"

section \<open>The arithmetic of the machine\<close>

lemma float64_ulp_small: "n < 2 ^ 53 \<Longrightarrow> float64_ulp n = 1"
  by (subst float64_ulp.simps) simp

lemma float64_ulp_54: "2 ^ 53 \<le> n \<Longrightarrow> n < 2 ^ 54 \<Longrightarrow> float64_ulp n = 2"
  by (subst float64_ulp.simps) (simp add: float64_ulp_small)

lemma float64_exact: "\<bar>n\<bar> < 2 ^ 53 \<Longrightarrow> float64 n = n"
  by (simp add: float64_def Let_def float64_ulp_small nat_less_iff sgn_if)

lemma int64_exact: "\<bar>n\<bar> < 2 ^ 63 \<Longrightarrow> int64 n = n"
  by (simp add: int64_def)

section \<open>Facts about the pixel buffer\<close>

lemma Rect_NRGBA_Set: "Rect (NRGBA_Set x y c p) = Rect p"
  by (simp add: NRGBA_Set_def)

lemma Pix_NRGBA_Set:
  "Pix (NRGBA_Set x y c p) x' y' =
     (if x' = x \<and> y' = y \<and> In x y (Rect p) then nrgbaModel c else Pix p x' y')"
  by (simp add: NRGBA_Set_def)

lemma NRGBA_eqI: "Pix p = Pix q \<Longrightarrow> Rect p = Rect q \<Longrightarrow> (p::NRGBA) = q"
  by simp

lemma Pix_stamp:
  "Pix (NRGBA_Set (x - 2) y c
       (NRGBA_Set (x + 2) y c
         (NRGBA_Set (x - 1) y c
           (NRGBA_Set (x + 1) y c
             (NRGBA_Set x y c img))))) x' y' =
   (if y' = y \<and> x - 2 \<le> x' \<and> x' \<le> x + 2 \<and> In x' y' (Rect img)
    then nrgbaModel c else Pix img x' y')"
proof -
  consider "x' = x" | "x' = x + 1" | "x' = x - 1" | "x' = x + 2" | "x' = x - 2"
    | "x' < x - 2 \<or> x + 2 < x'" by arith
  then show ?thesis
    by cases (auto simp: Pix_NRGBA_Set Rect_NRGBA_Set)
qed

lemma Rect_stamp:
  "Rect (NRGBA_Set (x - 2) y c
       (NRGBA_Set (x + 2) y c
         (NRGBA_Set (x - 1) y c
           (NRGBA_Set (x + 1) y c
             (NRGBA_Set x y c img))))) = Rect img"
  by (simp add: Rect_NRGBA_Set)

lemma Pix_stamp64:
  assumes "\<bar>x\<bar> \<le> 2 ^ 50"
  shows "Pix (NRGBA_Set (int64 (x - 2)) y c
       (NRGBA_Set (int64 (x + 2)) y c
         (NRGBA_Set (int64 (x - 1)) y c
           (NRGBA_Set (int64 (x + 1)) y c
             (NRGBA_Set x y c img))))) x' y' =
   (if y' = y \<and> x - 2 \<le> x' \<and> x' \<le> x + 2 \<and> In x' y' (Rect img)
    then nrgbaModel c else Pix img x' y')"
proof -
  have "int64 (x - 2) = x - 2" "int64 (x + 2) = x + 2" "int64 (x - 1) = x - 1"
    "int64 (x + 1) = x + 1"
    using assms by (simp_all add: int64_exact)
  then show ?thesis by (simp only: Pix_stamp)
qed

lemma Rect_stamp64:
  "Rect (NRGBA_Set (int64 (x - 2)) y c
       (NRGBA_Set (int64 (x + 2)) y c
         (NRGBA_Set (int64 (x - 1)) y c
           (NRGBA_Set (int64 (x + 1)) y c
             (NRGBA_Set x y c img))))) = Rect img"
  by (simp add: Rect_NRGBA_Set)

section \<open>drawBeeline returns\<close>

text \<open>
  The invariant of the loop, for end points of size at most \<open>2 ^ 48\<close>: with \<open>rx\<close> and
  \<open>ry\<close> the steps still to go along each axis, \<open>err = dx - dy + rx * dy - ry * dx\<close>,
  and \<open>err\<close> stays within \<open>2 * (dx + dy)\<close> of zero, so that no \<open>float64\<close> operation
  rounds and no coordinate wraps. It shows that no step is taken along an axis that has
  arrived, and that every iteration before the end takes a step; so \<open>rx + ry\<close>
  decreases.
\<close>

lemma beeline_loop_returns:
  assumes "X point2 = X point1 + sx * rx" "Y point2 = Y point1 + sy * ry"
    and "0 \<le> rx" "rx \<le> dx" "0 \<le> ry" "ry \<le> dy"
    and "err = dx - dy + rx * dy - ry * dx"
    and "sx = 1 \<or> sx = - 1" "sy = 1 \<or> sy = - 1"
    and "\<bar>X point2\<bar> \<le> 2 ^ 48" "\<bar>Y point2\<bar> \<le> 2 ^ 48" "dx \<le> 2 ^ 49" "dy \<le> 2 ^ 49"
    and "\<bar>err\<bar> \<le> 2 * (dx + dy)"
  shows "\<exists>img'. beeline_loop img point1 point2 dx dy sx sy err lineColor = Some img'"
  using assms
proof (induction "nat (rx + ry)" arbitrary: img point1 rx ry err rule: less_induct)
  case less
  show ?case
  proof (cases "rx = 0 \<and> ry = 0")
    case True
    with less.prems have "X point1 = X point2" "Y point1 = Y point2" by simp_all
    then show ?thesis by (subst beeline_loop.simps) (simp add: Let_def)
  next
    case False
    define e2 where "e2 = err * 2"
    define rx' where "rx' = (if e2 > - dy then rx - 1 else rx)"
    define ry' where "ry' = (if e2 < dx then ry - 1 else ry)"
    define err1 where "err1 = (if e2 > - dy then err - dy else err)"
    define err2 where "err2 = (if e2 < dx then err1 + dx else err1)"
    define p1 where "p1 = (if e2 > - dy then point1\<lparr>X := X point1 + sx\<rparr> else point1)"
    define p2 where "p2 = (if e2 < dx then p1\<lparr>Y := Y p1 + sy\<rparr> else p1)"
    have d0: "0 \<le> dx" "0 \<le> dy" using less.prems(3-6) by simp_all
    have pq: "rx * dy \<ge> 0" "ry * dx \<ge> 0" using less.prems(3-6) by simp_all
    have px: "rx \<ge> 1 \<Longrightarrow> rx * dy \<ge> dy"
      using less.prems(3-6) mult_right_mono[of 1 rx dy] by simp
    have py: "ry \<ge> 1 \<Longrightarrow> ry * dx \<ge> dx"
      using less.prems(3-6) mult_right_mono[of 1 ry dx] by simp
    have x0: "rx = 0 \<Longrightarrow> \<not> e2 > - dy"
      using False less.prems(3-7) py unfolding e2_def by auto
    have y0: "ry = 0 \<Longrightarrow> \<not> e2 < dx"
      using False less.prems(3-7) px unfolding e2_def by auto
    have prog: "e2 > - dy \<or> e2 < dx"
      using False less.prems(3-6) by linarith
    have rx0: "0 \<le> rx'"
      using x0 less.prems(3) unfolding rx'_def by (cases "rx = 0") auto
    have rx1: "rx' \<le> dx"
      using less.prems(4) unfolding rx'_def by auto
    have ry0: "0 \<le> ry'"
      using y0 less.prems(5) unfolding ry'_def by (cases "ry = 0") auto
    have ry1: "ry' \<le> dy"
      using less.prems(6) unfolding ry'_def by auto
    have dec: "nat (rx' + ry') < nat (rx + ry)"
      using prog rx0 ry0 less.prems(3-6) unfolding rx'_def ry'_def by auto
    have e: "err2 = dx - dy + rx' * dy - ry' * dx"
      using less.prems(7) unfolding err2_def err1_def rx'_def ry'_def
      by (auto simp: algebra_simps)
    have X2: "X point2 = X p2 + sx * rx'"
      using less.prems(1) unfolding p2_def p1_def rx'_def by (auto simp: algebra_simps)
    have Y2: "Y point2 = Y p2 + sy * ry'"
      using less.prems(2) unfolding p2_def p1_def ry'_def by (auto simp: algebra_simps)
    have ne: "\<not> (X point1 = X point2 \<and> Y point1 = Y point2)"
      using False less.prems(1-6,8,9) by auto
    have b2: "\<bar>err2\<bar> \<le> 2 * (dx + dy)"
      using less.prems(14) d0 unfolding err2_def err1_def e2_def by auto
    have xb: "\<bar>X point1\<bar> \<le> 2 ^ 48 + 2 ^ 49"
      using less.prems(1,3,4,8,10,12) by auto
    have yb: "\<bar>Y point1\<bar> \<le> 2 ^ 48 + 2 ^ 49"
      using less.prems(2,5,6,9,11,13) by auto
    have eb: "\<bar>err\<bar> \<le> 2 ^ 51"
      using less.prems(12-14) by simp
    have r1: "float64 (err * 2) = err * 2"
      using eb by (intro float64_exact) simp
    have r2: "float64 (err - dy) = err - dy"
      using eb d0 less.prems(13) by (intro float64_exact) simp
    have r3: "float64 (err - dy + dx) = err - dy + dx"
      using eb d0 less.prems(12,13) by (intro float64_exact) simp
    have r4: "float64 (err + dx) = err + dx"
      using eb d0 less.prems(12) by (intro float64_exact) simp
    have w1: "int64 (X point1 + sx) = X point1 + sx"
      using xb less.prems(8) by (intro int64_exact) auto
    have w2: "int64 (Y point1 + sy) = Y point1 + sy"
      using yb less.prems(9) by (intro int64_exact) auto
    define img5 where "img5 =
      NRGBA_Set (int64 (X point1 - 2)) (Y point1) lineColor
       (NRGBA_Set (int64 (X point1 + 2)) (Y point1) lineColor
         (NRGBA_Set (int64 (X point1 - 1)) (Y point1) lineColor
           (NRGBA_Set (int64 (X point1 + 1)) (Y point1) lineColor
             (NRGBA_Set (X point1) (Y point1) lineColor img))))"
    have step: "beeline_loop img point1 point2 dx dy sx sy err lineColor =
        beeline_loop img5 p2 point2 dx dy sx sy err2 lineColor"
      unfolding img5_def p2_def p1_def err2_def err1_def e2_def
      by (subst beeline_loop.simps) (simp add: Let_def ne r1 r2 r3 r4 w1 w2)
    from less.hyps[OF dec X2 Y2 rx0 rx1 ry0 ry1 e less.prems(8,9,10,11,12,13) b2]
    show ?thesis unfolding step .
  qed
qed

lemma float64_0: "float64 0 = 0"
  by (simp add: float64_exact)

lemma float64_neg_2_53: "float64 (- 9007199254740992) = - 9007199254740992"
  by (simp add: float64_def Let_def float64_ulp_54)

lemma float64_neg_2_53_1: "float64 (- 9007199254740993) = - 9007199254740992"
  by (simp add: float64_def Let_def float64_ulp_54)

lemma float64_pos_2_53: "float64 9007199254740992 = 9007199254740992"
  by (simp add: float64_def Let_def float64_ulp_54)

text \<open>
  Where \<open>dx\<close> and \<open>dy\<close> are both \<open>2 ^ 53\<close> and \<open>err\<close> is zero, every iteration steps
  along both axes and leaves \<open>err\<close> at zero; a point with \<open>X = Y\<close> then never reaches
  the end point \<open>(2 ^ 53 + 1, 2 ^ 53)\<close>.
\<close>

lemma beeline_loop_diagonal:
  "beeline_loop img point1 point2 dx dy sx sy err lineColor = Some img' \<Longrightarrow>
     \<not> (X point1 = Y point1 \<and> X point2 = 2 ^ 53 + 1 \<and> Y point2 = 2 ^ 53 \<and>
        dx = 2 ^ 53 \<and> dy = 2 ^ 53 \<and> sx = 1 \<and> sy = 1 \<and> err = 0)"
proof (rule beeline_loop.raw_induct[where P = "\<lambda>img point1 point2 dx dy sx sy err lineColor img'.
     \<not> (X point1 = Y point1 \<and> X point2 = 2 ^ 53 + 1 \<and> Y point2 = 2 ^ 53 \<and>
        dx = 2 ^ 53 \<and> dy = 2 ^ 53 \<and> sx = 1 \<and> sy = 1 \<and> err = 0)"])
  show "beeline_loop img point1 point2 dx dy sx sy err lineColor = Some img' \<Longrightarrow>
    beeline_loop img point1 point2 dx dy sx sy err lineColor = Some img'" .
next
  fix f :: "NRGBA \<Rightarrow> Point \<Rightarrow> Point \<Rightarrow> int \<Rightarrow> int \<Rightarrow> int \<Rightarrow> int \<Rightarrow> int \<Rightarrow> RGBA \<Rightarrow> NRGBA option"
  fix img point1 point2 dx dy sx sy err lineColor img'
  assume IH: "\<And>img point1 point2 dx dy sx sy err lineColor img'.
      f img point1 point2 dx dy sx sy err lineColor = Some img' \<Longrightarrow>
      \<not> (X point1 = Y point1 \<and> X point2 = 2 ^ 53 + 1 \<and> Y point2 = 2 ^ 53 \<and>
        dx = 2 ^ 53 \<and> dy = 2 ^ 53 \<and> sx = 1 \<and> sy = 1 \<and> err = 0)"
  assume body: "(let img1 = NRGBA_Set (X point1) (Y point1) lineColor img;
          img2 = NRGBA_Set (int64 (X point1 + 1)) (Y point1) lineColor img1;
          img3 = NRGBA_Set (int64 (X point1 - 1)) (Y point1) lineColor img2;
          img4 = NRGBA_Set (int64 (X point1 + 2)) (Y point1) lineColor img3;
          img5 = NRGBA_Set (int64 (X point1 - 2)) (Y point1) lineColor img4
      in if X point1 = X point2 \<and> Y point1 = Y point2 then Some img5
         else
           let e2 = float64 (err * 2);
               err1 = (if e2 > - dy then float64 (err - dy) else err);
               p1 = (if e2 > - dy then point1\<lparr>X := int64 (X point1 + sx)\<rparr> else point1);
               err2 = (if e2 < dx then float64 (err1 + dx) else err1);
               p2 = (if e2 < dx then p1\<lparr>Y := int64 (Y p1 + sy)\<rparr> else p1)
           in f img5 p2 point2 dx dy sx sy err2 lineColor) = Some img'"
  show "\<not> (X point1 = Y point1 \<and> X point2 = 2 ^ 53 + 1 \<and> Y point2 = 2 ^ 53 \<and>
        dx = 2 ^ 53 \<and> dy = 2 ^ 53 \<and> sx = 1 \<and> sy = 1 \<and> err = 0)"
  proof
    assume inv: "X point1 = Y point1 \<and> X point2 = 2 ^ 53 + 1 \<and> Y point2 = 2 ^ 53 \<and>
        dx = 2 ^ 53 \<and> dy = 2 ^ 53 \<and> sx = 1 \<and> sy = 1 \<and> err = 0"
    define img5 where "img5 =
      NRGBA_Set (int64 (X point1 - 2)) (Y point1) lineColor
       (NRGBA_Set (int64 (X point1 + 2)) (Y point1) lineColor
         (NRGBA_Set (int64 (X point1 - 1)) (Y point1) lineColor
           (NRGBA_Set (int64 (X point1 + 1)) (Y point1) lineColor
             (NRGBA_Set (X point1) (Y point1) lineColor img))))"
    define q where "q = point1\<lparr>X := int64 (X point1 + 1), Y := int64 (Y point1 + 1)\<rparr>"
    have ne: "\<not> (X point1 = X point2 \<and> Y point1 = Y point2)" using inv by auto
    have v: "dx = 9007199254740992" "dy = 9007199254740992" "sx = 1" "sy = 1" "err = 0"
      using inv by simp_all
    have "f img5
            (if float64 (err * 2) < dx
             then (if - dy < float64 (err * 2) then point1\<lparr>X := int64 (X point1 + sx)\<rparr>
                   else point1)
                  \<lparr>Y := int64 (Y (if - dy < float64 (err * 2)
                                     then point1\<lparr>X := int64 (X point1 + sx)\<rparr>
                                     else point1) + sy)\<rparr>
             else (if - dy < float64 (err * 2) then point1\<lparr>X := int64 (X point1 + sx)\<rparr>
                   else point1))
            point2 dx dy sx sy
            (if float64 (err * 2) < dx
             then float64 ((if - dy < float64 (err * 2) then float64 (err - dy) else err) + dx)
             else (if - dy < float64 (err * 2) then float64 (err - dy) else err))
            lineColor = Some img'"
      using body unfolding img5_def by (simp only: Let_def ne if_False)
    then have "f img5 q point2 dx dy sx sy 0 lineColor = Some img'"
      unfolding v q_def by (simp add: float64_0 float64_neg_2_53)
    moreover have "X q = Y q" using inv by (simp add: q_def)
    ultimately show False using IH[of img5 q point2 dx dy sx sy 0 lineColor img'] inv by simp
  qed
qed

lemma beeline_loop_horizontal:
  assumes "X point1 \<le> X point2" "Y point1 = Y point2" "0 < dx" "dx \<le> 2 ^ 49"
    "- (2 ^ 48) \<le> X point1" "X point2 \<le> 2 ^ 48"
  shows "beeline_loop img point1 point2 dx 0 1 sy dx lineColor =
           Some (img\<lparr>Pix := (\<lambda>x y. if y = Y point1 \<and> X point1 - 2 \<le> x \<and> x \<le> X point2 + 2
                                        \<and> In x y (Rect img)
                                     then nrgbaModel lineColor else Pix img x y)\<rparr>)"
  using assms
proof (induction "nat (X point2 - X point1)" arbitrary: img point1)
  case 0
  then have eq: "X point1 = X point2" by simp
  have xb: "\<bar>X point1\<bar> \<le> 2 ^ 50" using "0.prems"(1,5,6) by simp
  define img5 where "img5 =
      NRGBA_Set (int64 (X point1 - 2)) (Y point1) lineColor
       (NRGBA_Set (int64 (X point1 + 2)) (Y point1) lineColor
         (NRGBA_Set (int64 (X point1 - 1)) (Y point1) lineColor
           (NRGBA_Set (int64 (X point1 + 1)) (Y point1) lineColor
             (NRGBA_Set (X point1) (Y point1) lineColor img))))"
  have step: "beeline_loop img point1 point2 dx 0 1 sy dx lineColor = Some img5"
    unfolding img5_def using eq "0.prems"(2)
    by (subst beeline_loop.simps) (simp add: Let_def)
  have P: "\<And>x y. Pix img5 x y = (if y = Y point1 \<and> X point1 - 2 \<le> x \<and> x \<le> X point1 + 2
                                        \<and> In x y (Rect img)
                                     then nrgbaModel lineColor else Pix img x y)"
    by (simp add: img5_def Pix_stamp64[OF xb])
  have "img5 = img\<lparr>Pix := (\<lambda>x y. if y = Y point1 \<and> X point1 - 2 \<le> x \<and> x \<le> X point2 + 2
                                        \<and> In x y (Rect img)
                                     then nrgbaModel lineColor else Pix img x y)\<rparr>"
  proof (rule NRGBA_eqI)
    show "Pix img5 = Pix (img\<lparr>Pix := (\<lambda>x y. if y = Y point1 \<and> X point1 - 2 \<le> x \<and> x \<le> X point2 + 2
                                        \<and> In x y (Rect img)
                                     then nrgbaModel lineColor else Pix img x y)\<rparr>)"
      using P by (intro ext) (simp add: eq)
    show "Rect img5 = Rect (img\<lparr>Pix := (\<lambda>x y. if y = Y point1 \<and> X point1 - 2 \<le> x \<and> x \<le> X point2 + 2
                                        \<and> In x y (Rect img)
                                     then nrgbaModel lineColor else Pix img x y)\<rparr>)"
      by (simp add: img5_def Rect_stamp64)
  qed
  then show ?case using step by simp
next
  case (Suc n)
  define p where "p = point1\<lparr>X := X point1 + 1\<rparr>"
  define img5 where "img5 =
      NRGBA_Set (int64 (X point1 - 2)) (Y point1) lineColor
       (NRGBA_Set (int64 (X point1 + 2)) (Y point1) lineColor
         (NRGBA_Set (int64 (X point1 - 1)) (Y point1) lineColor
           (NRGBA_Set (int64 (X point1 + 1)) (Y point1) lineColor
             (NRGBA_Set (X point1) (Y point1) lineColor img))))"
  have lt: "X point1 < X point2" using Suc.hyps(2) by simp
  have xb: "\<bar>X point1\<bar> \<le> 2 ^ 50" using Suc.prems(1,5,6) by simp
  have r1: "float64 (dx * 2) = dx * 2"
    using Suc.prems(3,4) by (intro float64_exact) simp
  have r2: "float64 dx = dx"
    using Suc.prems(3,4) by (intro float64_exact) simp
  have w1: "int64 (X point1 + 1) = X point1 + 1"
    using xb by (intro int64_exact) simp
  have step: "beeline_loop img point1 point2 dx 0 1 sy dx lineColor =
        beeline_loop img5 p point2 dx 0 1 sy dx lineColor"
    unfolding img5_def p_def using lt Suc.prems(3)
    by (subst beeline_loop.simps) (simp add: Let_def r1 r2 w1)
  have n: "n = nat (X point2 - X p)" using Suc.hyps(2) by (simp add: p_def)
  have le: "X p \<le> X point2" using lt by (simp add: p_def)
  have yy: "Y p = Y point2" using Suc.prems(2) by (simp add: p_def)
  have lo: "- (2 ^ 48) \<le> X p" using Suc.prems(5) by (simp add: p_def)
  have R: "Rect img5 = Rect img" by (simp add: img5_def Rect_stamp64)
  have P: "\<And>x y. Pix img5 x y = (if y = Y point1 \<and> X point1 - 2 \<le> x \<and> x \<le> X point1 + 2
                                        \<and> In x y (Rect img)
                                     then nrgbaModel lineColor else Pix img x y)"
    by (simp add: img5_def Pix_stamp64[OF xb])
  have "img5\<lparr>Pix := (\<lambda>x y. if y = Y p \<and> X p - 2 \<le> x \<and> x \<le> X point2 + 2
                                        \<and> In x y (Rect img5)
                                     then nrgbaModel lineColor else Pix img5 x y)\<rparr> =
        img\<lparr>Pix := (\<lambda>x y. if y = Y point1 \<and> X point1 - 2 \<le> x \<and> x \<le> X point2 + 2
                                        \<and> In x y (Rect img)
                                     then nrgbaModel lineColor else Pix img x y)\<rparr>"
  proof (rule NRGBA_eqI)
    show "Pix (img5\<lparr>Pix := (\<lambda>x y. if y = Y p \<and> X p - 2 \<le> x \<and> x \<le> X point2 + 2
                                        \<and> In x y (Rect img5)
                                     then nrgbaModel lineColor else Pix img5 x y)\<rparr>) =
        Pix (img\<lparr>Pix := (\<lambda>x y. if y = Y point1 \<and> X point1 - 2 \<le> x \<and> x \<le> X point2 + 2
                                        \<and> In x y (Rect img)
                                     then nrgbaModel lineColor else Pix img x y)\<rparr>)"
      using lt by (intro ext) (auto simp: P R p_def)
    show "Rect (img5\<lparr>Pix := (\<lambda>x y. if y = Y p \<and> X p - 2 \<le> x \<and> x \<le> X point2 + 2
                                        \<and> In x y (Rect img5)
                                     then nrgbaModel lineColor else Pix img5 x y)\<rparr>) =
        Rect (img\<lparr>Pix := (\<lambda>x y. if y = Y point1 \<and> X point1 - 2 \<le> x \<and> x \<le> X point2 + 2
                                        \<and> In x y (Rect img)
                                     then nrgbaModel lineColor else Pix img x y)\<rparr>)"
      by (simp add: R)
  qed
  then show ?case
    unfolding step Suc.hyps(1)[OF n le yy Suc.prems(3,4) lo Suc.prems(6)] by simp
qed

text \<open>
  C9, as the code has it. \<open>drawBeeline\<close> returns for every canvas, every colour and
  every pair of end points whose coordinates are at most \<open>2 ^ 48\<close> in size, whatever the
  position of the two points (equal points, horizontal and vertical lines included):
  there \<open>dx\<close>, \<open>dy\<close> and \<open>err\<close> are exact, and the loop reaches \<open>point1 = point2\<close>, the
  only place where it returns. Every point of a canvas that can be allocated is within
  that size.
\<close>

theorem drawBeeline_returns:
  assumes "\<bar>X point1\<bar> \<le> 2 ^ 48" "\<bar>Y point1\<bar> \<le> 2 ^ 48"
    "\<bar>X point2\<bar> \<le> 2 ^ 48" "\<bar>Y point2\<bar> \<le> 2 ^ 48"
  shows "\<exists>captcha'. drawBeeline captcha point1 point2 lineColor = Return captcha'"
proof (cases "Error captcha = None")
  case False
  then show ?thesis by (simp add: drawBeeline_def)
next
  case True
  define dx where "dx = \<bar>X point1 - X point2\<bar>"
  define dy where "dy = \<bar>Y point2 - Y point1\<bar>"
  define sx :: int where "sx = (if X point1 \<ge> X point2 then - 1 else 1)"
  define sy :: int where "sy = (if Y point1 \<ge> Y point2 then - 1 else 1)"
  have bx: "\<bar>X point1 - X point2\<bar> \<le> 2 ^ 49" using assms(1,3) by simp
  have bY: "\<bar>Y point2 - Y point1\<bar> \<le> 2 ^ 49" using assms(2,4) by simp
  have ix: "int64 (X point1 - X point2) = X point1 - X point2"
    using bx by (intro int64_exact) simp
  have iy: "int64 (Y point2 - Y point1) = Y point2 - Y point1"
    using bY by (intro int64_exact) simp
  have fx: "float64 (X point1 - X point2) = X point1 - X point2"
    using bx by (intro float64_exact) simp
  have fy: "float64 (Y point2 - Y point1) = Y point2 - Y point1"
    using bY by (intro float64_exact) simp
  have fe: "float64 (dx - dy) = dx - dy"
    using bx bY unfolding dx_def dy_def by (intro float64_exact) simp
  have d0: "0 \<le> dx" "0 \<le> dy" by (simp_all add: dx_def dy_def)
  have eb: "\<bar>dx - dy\<bar> \<le> 2 * (dx + dy)" using d0 by (simp add: abs_if)
  have d1: "dx \<le> 2 ^ 49" "dy \<le> 2 ^ 49" using bx bY by (simp_all add: dx_def dy_def)
  have X2: "X point2 = X point1 + sx * dx" by (auto simp: dx_def sx_def)
  have Y2: "Y point2 = Y point1 + sy * dy" by (auto simp: dy_def sy_def)
  have "\<exists>img'. beeline_loop (nrgba captcha) point1 point2 dx dy sx sy (dx - dy) lineColor
          = Some img'"
    using X2 Y2 d0 d1 eb assms(3,4)
    by (intro beeline_loop_returns[where rx = dx and ry = dy])
       (simp_all add: sx_def sy_def)
  then show ?thesis
    using True
    by (auto simp: drawBeeline_def Let_def ix iy fx fy fe[unfolded dx_def dy_def]
        dx_def dy_def sx_def sy_def)
qed

theorem drawBeeline_returns_witness:
  "\<bar>X \<lparr>X = 3, Y = 7\<rparr>\<bar> \<le> 2 ^ 48 \<and> \<bar>Y \<lparr>X = 3, Y = 7\<rparr>\<bar> \<le> 2 ^ 48 \<and>
   \<bar>X \<lparr>X = - 4, Y = 2\<rparr>\<bar> \<le> 2 ^ 48 \<and> \<bar>Y \<lparr>X = - 4, Y = 2\<rparr>\<bar> \<le> 2 ^ 48 \<and>
   (\<exists>captcha'. drawBeeline (canvas 16 5 black) \<lparr>X = 3, Y = 7\<rparr> \<lparr>X = - 4, Y = 2\<rparr> white
                  = Return captcha')"
  using drawBeeline_returns[of "\<lparr>X = 3, Y = 7\<rparr>" "\<lparr>X = - 4, Y = 2\<rparr>" "canvas 16 5 black" white]
  by simp

text \<open>
  The claim as stated fails. From \<open>(0, 0)\<close> to \<open>(2 ^ 53 + 1, 2 ^ 53)\<close> the difference
  \<open>2 ^ 53 + 1\<close> is rounded to the \<open>float64\<close> \<open>2 ^ 53\<close>, so \<open>dx = dy\<close> and \<open>err = 0\<close>:
  every iteration steps along both axes, \<open>X = Y\<close> holds for ever and the end point is
  never reached. \<open>drawBeeline\<close> does not return.
\<close>

theorem drawBeeline_returns_counterexample:
  "drawBeeline (canvas 16 5 black) \<lparr>X = 0, Y = 0\<rparr> \<lparr>X = 2 ^ 53 + 1, Y = 2 ^ 53\<rparr> white
     = Diverge"
proof -
  have n: "beeline_loop (nrgba (canvas 16 5 black)) \<lparr>X = 0, Y = 0\<rparr>
             \<lparr>X = 9007199254740993, Y = 9007199254740992\<rparr>
             9007199254740992 9007199254740992 1 1 0 white = None"
  proof (rule ccontr)
    assume "beeline_loop (nrgba (canvas 16 5 black)) \<lparr>X = 0, Y = 0\<rparr>
             \<lparr>X = 9007199254740993, Y = 9007199254740992\<rparr>
             9007199254740992 9007199254740992 1 1 0 white \<noteq> None"
    then obtain img' where "beeline_loop (nrgba (canvas 16 5 black)) \<lparr>X = 0, Y = 0\<rparr>
             \<lparr>X = 9007199254740993, Y = 9007199254740992\<rparr>
             9007199254740992 9007199254740992 1 1 0 white = Some img'"
      by auto
    from beeline_loop_diagonal[OF this] show False by simp
  qed
  have e: "Error (canvas 16 5 black) = None" by (simp add: canvas_def Let_def)
  show ?thesis
    by (simp add: drawBeeline_def e Let_def int64_def float64_0 float64_neg_2_53_1
        float64_pos_2_53 n)
qed

section \<open>The stroke of a horizontal line\<close>

lemma unat_257: "unat (w :: 8 word) * 257 div 256 = unat w"
proof -
  have "unat w < 256" using unsigned_less[of w, where ?'a = nat] by simp
  then show ?thesis by simp
qed

lemma nrgbaModel_opaque: "A c = 255 \<Longrightarrow> nrgbaModel c = c"
  by (simp add: nrgbaModel_def Let_def unat_257)

lemma setRGBA64Model_opaque: "A c = 255 \<Longrightarrow> setRGBA64Model c = c"
  by (simp add: setRGBA64Model_def Let_def unat_257)

lemma New_Return:
  assumes "0 \<le> w" "w < 2 ^ 30" "0 \<le> h" "h < 2 ^ 30"
  shows "New w h bgColor = Return (canvas w h bgColor)"
proof -
  have p: "w * h < 2 ^ 30 * 2 ^ 30"
    using assms by (intro mult_strict_mono) simp_all
  have i: "int64 w = w" "int64 h = h" using assms by (simp_all add: int64_exact)
  show ?thesis
    using assms p by (simp add: New_def Let_def image_Rect_def i)
qed

lemma drawBeeline_horizontal:
  assumes "Error captcha = None" "X point1 < X point2" "Y point1 = Y point2"
    "- (2 ^ 48) \<le> X point1" "X point2 \<le> 2 ^ 48"
  shows "drawBeeline captcha point1 point2 lineColor =
           Return (captcha\<lparr>nrgba := (nrgba captcha)\<lparr>Pix :=
             (\<lambda>x y. if y = Y point1 \<and> X point1 - 2 \<le> x \<and> x \<le> X point2 + 2
                          \<and> In x y (Rect (nrgba captcha))
                     then nrgbaModel lineColor else Pix (nrgba captcha) x y)\<rparr>\<rparr>)"
proof -
  have b: "\<bar>X point1 - X point2\<bar> \<le> 2 ^ 49" using assms(2,4,5) by simp
  have ix: "int64 (X point1 - X point2) = X point1 - X point2"
    using b by (intro int64_exact) simp
  have fx: "float64 (X point1 - X point2) = X point1 - X point2"
    using b by (intro float64_exact) simp
  have dx: "\<bar>X point1 - X point2\<bar> = X point2 - X point1" using assms(2) by simp
  have fe: "float64 (X point2 - X point1) = X point2 - X point1"
    using b by (intro float64_exact) simp
  have pos: "0 < X point2 - X point1" and le: "X point1 \<le> X point2" using assms(2) by simp_all
  have d1: "X point2 - X point1 \<le> 2 ^ 49" using b dx by simp
  show ?thesis
    using assms(1,2,3)
    by (simp add: drawBeeline_def Let_def ix fx dx fe int64_exact float64_0
        beeline_loop_horizontal[OF le assms(3) pos d1 assms(4,5)])
qed

text \<open>
  C3, as the code has it. On a canvas with no stored error the line from \<open>(0,0)\<close> to
  \<open>(10,0)\<close> paints exactly the pixels of row \<open>0\<close> with \<open>x\<close> from \<open>-2\<close> to \<open>12\<close> that
  lie inside the bounds: the stroke is widened along \<open>x\<close> (two pixels to the left and to
  the right of every stepped point), not along \<open>y\<close>. Every other pixel keeps its colour.
\<close>

theorem drawBeeline_0_10_row:
  assumes "Error captcha = None"
  shows "drawBeeline captcha \<lparr>X = 0, Y = 0\<rparr> \<lparr>X = 10, Y = 0\<rparr> lineColor =
           Return (captcha\<lparr>nrgba := (nrgba captcha)\<lparr>Pix :=
             (\<lambda>x y. if y = 0 \<and> - 2 \<le> x \<and> x \<le> 12 \<and> In x y (Rect (nrgba captcha))
                     then nrgbaModel lineColor else Pix (nrgba captcha) x y)\<rparr>\<rparr>)"
  using drawBeeline_horizontal[OF assms, of "\<lparr>X = 0, Y = 0\<rparr>" "\<lparr>X = 10, Y = 0\<rparr>" lineColor]
  by simp

theorem drawBeeline_0_10_row_witness:
  "New 16 5 black = Return (canvas 16 5 black) \<and>
   Error (canvas 16 5 black) = None \<and>
   pixelAfter (drawBeeline (canvas 16 5 black) \<lparr>X = 0, Y = 0\<rparr> \<lparr>X = 10, Y = 0\<rparr> white) 12 0
     = Some white \<and>
   pixelAfter (drawBeeline (canvas 16 5 black) \<lparr>X = 0, Y = 0\<rparr> \<lparr>X = 10, Y = 0\<rparr> white) 13 0
     = Some black"
proof -
  have e: "Error (canvas 16 5 black) = None" by (simp add: canvas_def Let_def)
  show ?thesis
    using e drawBeeline_0_10_row[OF e, of white]
    by (simp add: New_Return pixelAfter_def canvas_def Let_def image_Rect_def In_def
        nrgbaModel_opaque setRGBA64Model_opaque black_def white_def)
qed

text \<open>
  The claim as stated fails: on a 16 by 5 black canvas, the white line from \<open>(0,0)\<close> to
  \<open>(10,0)\<close> leaves the pixel \<open>(5,1)\<close>, which is inside the bounds, black.
\<close>

theorem drawBeeline_0_10_row_counterexample:
  "New 16 5 black = Return (canvas 16 5 black) \<and>
   In 5 1 (Rect (nrgba (canvas 16 5 black))) \<and>
   pixelAfter (drawBeeline (canvas 16 5 black) \<lparr>X = 0, Y = 0\<rparr> \<lparr>X = 10, Y = 0\<rparr> white) 5 1
     = Some black \<and> black \<noteq> white"
proof -
  have e: "Error (canvas 16 5 black) = None" by (simp add: canvas_def Let_def)
  show ?thesis
    using drawBeeline_horizontal[OF e, of "\<lparr>X = 0, Y = 0\<rparr>" "\<lparr>X = 10, Y = 0\<rparr>" white]
    by (simp add: New_Return pixelAfter_def canvas_def Let_def image_Rect_def In_def
        nrgbaModel_opaque setRGBA64Model_opaque black_def white_def)
qed

section \<open>Colours at random\<close>

lemma uint_word_of_int_8: "0 \<le> v \<Longrightarrow> v < 256 \<Longrightarrow> uint (word_of_int v :: 8 word) = v"
  by (simp add: uint_word_of_int_eq take_bit_int_eq_self)

lemma randColor_eq:
  "randColor r =
    Return (\<lparr>R = word_of_int (int (shd r) mod 255),
             G = word_of_int (int (shd (stl r)) mod 255),
             B = word_of_int
                  (let s = int (shd r) mod 255 + int (shd (stl r)) mod 255
                   in if 400 < s then 0 else min (400 - s) 255),
             A = 255\<rparr>, stl (stl (stl r)))"
  by (simp add: randColor_def Intn_def Let_def min_def)

lemma randColor_red: "randColor r = Return (col, r') \<Longrightarrow> uint (R col) = int (shd r) mod 255"
  by (auto simp: randColor_eq uint_word_of_int_8)

lemma randColor_green:
  "randColor r = Return (col, r') \<Longrightarrow> uint (G col) = int (shd (stl r)) mod 255"
  by (auto simp: randColor_eq uint_word_of_int_8)

lemma randColor_blue:
  assumes "randColor r = Return (col, r')"
  shows "uint (B col) = (if uint (R col) + uint (G col) > 400 then 0
                         else min (400 - uint (R col) - uint (G col)) 255)"
proof -
  define s where "s = int (shd r) mod 255 + int (shd (stl r)) mod 255"
  have s: "uint (R col) + uint (G col) = s"
    using randColor_red[OF assms] randColor_green[OF assms] by (simp add: s_def)
  have s0: "0 \<le> s" by (simp add: s_def)
  have b: "B col = word_of_int (if 400 < s then 0 else min (400 - s) 255)"
    using assms by (auto simp: randColor_eq s_def Let_def)
  have "uint (B col) = (if 400 < s then 0 else min (400 - s) 255)"
    unfolding b using s0 by (intro uint_word_of_int_8) auto
  then show ?thesis using s by (simp add: algebra_simps)
qed

lemma randColor_alpha: "randColor r = Return (col, r') \<Longrightarrow> A col = 255"
  by (auto simp: randColor_eq)

text \<open>
  C5, as the code has it. \<open>randColor\<close> always returns; red and green are the two draws
  \<open>rand.Intn(255)\<close>, so each lies in \<open>[0, 254]\<close>, and every pair of values of that range
  is the red and green of some run; blue is \<open>400 - red - green\<close> capped at 255 when
  \<open>red + green \<le> 400\<close> and 0 otherwise; alpha is 255.
\<close>

theorem randColor_channels:
  "(\<exists>col r'. randColor r = Return (col, r') \<and>
       0 \<le> uint (R col) \<and> uint (R col) \<le> 254 \<and> 0 \<le> uint (G col) \<and> uint (G col) \<le> 254 \<and>
       uint (B col) = (if uint (R col) + uint (G col) > 400 then 0
                       else min (400 - uint (R col) - uint (G col)) 255) \<and>
       A col = 255) \<and>
   (0 \<le> v \<and> v \<le> 254 \<and> 0 \<le> w \<and> w \<le> 254 \<longrightarrow>
      (\<exists>r0 col r'. randColor r0 = Return (col, r') \<and> uint (R col) = v \<and> uint (G col) = w))"
proof (intro conjI impI)
  obtain col r' where c: "randColor r = Return (col, r')" by (simp add: randColor_eq)
  have "uint (R col) \<le> 254" "uint (G col) \<le> 254"
    using randColor_red[OF c] randColor_green[OF c]
      pos_mod_bound[of 255 "int (shd r)"] pos_mod_bound[of 255 "int (shd (stl r))"]
    by simp_all
  then show "\<exists>col r'. randColor r = Return (col, r') \<and>
       0 \<le> uint (R col) \<and> uint (R col) \<le> 254 \<and> 0 \<le> uint (G col) \<and> uint (G col) \<le> 254 \<and>
       uint (B col) = (if uint (R col) + uint (G col) > 400 then 0
                       else min (400 - uint (R col) - uint (G col)) 255) \<and>
       A col = 255"
    using c randColor_blue[OF c] randColor_alpha[OF c] by (intro exI[of _ col] exI[of _ r']) simp
next
  assume vw: "0 \<le> v \<and> v \<le> 254 \<and> 0 \<le> w \<and> w \<le> 254"
  define r0 where "r0 = nat v ## nat w ## sconst 0"
  obtain col r' where c: "randColor r0 = Return (col, r')" by (simp add: randColor_eq)
  have "uint (R col) = v" "uint (G col) = w"
    using randColor_red[OF c] randColor_green[OF c] vw by (simp_all add: r0_def)
  then show "\<exists>r0 col r'. randColor r0 = Return (col, r') \<and> uint (R col) = v \<and> uint (G col) = w"
    using c by blast
qed

theorem randColor_channels_witness:
  "(\<exists>col r'. randColor (sconst 7) = Return (col, r') \<and>
       0 \<le> uint (R col) \<and> uint (R col) \<le> 254 \<and> 0 \<le> uint (G col) \<and> uint (G col) \<le> 254 \<and>
       uint (B col) = (if uint (R col) + uint (G col) > 400 then 0
                       else min (400 - uint (R col) - uint (G col)) 255) \<and>
       A col = 255) \<and>
   ((0::int) \<le> 254 \<and> (254::int) \<le> 254 \<and> (0::int) \<le> 3 \<and> (3::int) \<le> 254) \<and>
   (\<exists>r0 col r'. randColor r0 = Return (col, r') \<and> uint (R col) = 254 \<and> uint (G col) = 3)"
  using randColor_channels[of "sconst 7" 254 3] by simp

text \<open>
  The claim as stated fails: red is never 255, so red does not range over the whole of
  \<open>[0, 255]\<close>.
\<close>

theorem randColor_channels_counterexample:
  "\<not> (\<exists>r col r'. randColor r = Return (col, r') \<and> uint (R col) = 255)"
proof
  assume "\<exists>r col r'. randColor r = Return (col, r') \<and> uint (R col) = 255"
  then obtain r col r' where c: "randColor r = Return (col, r')" and "uint (R col) = 255"
    by blast
  then have "int (shd r) mod 255 = 255" using randColor_red[OF c] by simp
  then show False using pos_mod_bound[of 255 "int (shd r)"] by simp
qed

section \<open>randDeepColor\<close>

text \<open>
  C4. \<open>randDeepColor\<close> always returns. Its colour is computed from one \<open>randColor\<close>
  result \<open>base\<close> and one draw \<open>rand.Intn(255)\<close>, which gives the single increase
  \<open>30 + k\<close> in \<open>[30, 284]\<close> used for the three channels; each channel is
  \<open>uint8(abs(min(base - increase, 255)))\<close> and alpha is 255. Every increase of
  \<open>[30, 284]\<close> occurs in some run. The minimum is taken before the absolute value: with
  base red 0 and increase 250 the red channel is 250, not 0.
\<close>

theorem randDeepColor_channels:
  "(\<exists>base r1 k r2. randColor r = Return (base, r1) \<and> Intn 255 r1 = Return (k, r2) \<and>
       30 \<le> 30 + k \<and> 30 + k \<le> 284 \<and>
       randDeepColor ovf r =
         Return (\<lparr>R = uint8_of_float64 ovf \<bar>min (uint (R base) - (30 + k)) 255\<bar>,
                  G = uint8_of_float64 ovf \<bar>min (uint (G base) - (30 + k)) 255\<bar>,
                  B = uint8_of_float64 ovf \<bar>min (uint (B base) - (30 + k)) 255\<bar>,
                  A = 255\<rparr>, r2)) \<and>
   (30 \<le> inc \<and> inc \<le> 284 \<longrightarrow>
      (\<exists>r0 base r1 r2. randColor r0 = Return (base, r1) \<and>
                        Intn 255 r1 = Return (inc - 30, r2))) \<and>
   randDeepColor ovf (0 ## 0 ## 0 ## 220 ## sconst 0) =
     Return (\<lparr>R = 250, G = 250, B = 5, A = 255\<rparr>, sconst 0)"
proof (intro conjI impI)
  obtain base r1 where b: "randColor r = Return (base, r1)" by (simp add: randColor_eq)
  define k where "k = int (shd r1) mod 255"
  have i: "Intn 255 r1 = Return (k, stl r1)" by (simp add: Intn_def k_def)
  have k: "0 \<le> k" "k < 255" by (simp_all add: k_def)
  show "\<exists>base r1 k r2. randColor r = Return (base, r1) \<and> Intn 255 r1 = Return (k, r2) \<and>
       30 \<le> 30 + k \<and> 30 + k \<le> 284 \<and>
       randDeepColor ovf r =
         Return (\<lparr>R = uint8_of_float64 ovf \<bar>min (uint (R base) - (30 + k)) 255\<bar>,
                  G = uint8_of_float64 ovf \<bar>min (uint (G base) - (30 + k)) 255\<bar>,
                  B = uint8_of_float64 ovf \<bar>min (uint (B base) - (30 + k)) 255\<bar>,
                  A = 255\<rparr>, r2)"
    using b i k
    by (intro exI[of _ base] exI[of _ r1] exI[of _ k] exI[of _ "stl r1"])
       (simp add: randDeepColor_def Let_def)
next
  assume inc: "30 \<le> inc \<and> inc \<le> 284"
  define r0 where "r0 = 0 ## 0 ## 0 ## nat (inc - 30) ## sconst 0"
  obtain base r1 where b: "randColor r0 = Return (base, r1)" by (simp add: randColor_eq)
  have r1: "r1 = nat (inc - 30) ## sconst 0" using b by (simp add: randColor_eq r0_def)
  have "Intn 255 r1 = Return (inc - 30, sconst 0)" using inc by (simp add: Intn_def r1)
  then show "\<exists>r0 base r1 r2. randColor r0 = Return (base, r1) \<and>
                        Intn 255 r1 = Return (inc - 30, r2)"
    using b by blast
next
  show "randDeepColor ovf (0 ## 0 ## 0 ## 220 ## sconst 0) =
     Return (\<lparr>R = 250, G = 250, B = 5, A = 255\<rparr>, sconst 0)"
    by (simp add: randDeepColor_def randColor_eq Intn_def Let_def uint8_of_float64_def)
qed

theorem randDeepColor_channels_witness:
  "(\<exists>base r1 k r2. randColor (sconst 7) = Return (base, r1) \<and> Intn 255 r1 = Return (k, r2) \<and>
       30 \<le> 30 + k \<and> 30 + k \<le> 284 \<and>
       randDeepColor word_of_int (sconst 7) =
         Return (\<lparr>R = uint8_of_float64 word_of_int \<bar>min (uint (R base) - (30 + k)) 255\<bar>,
                  G = uint8_of_float64 word_of_int \<bar>min (uint (G base) - (30 + k)) 255\<bar>,
                  B = uint8_of_float64 word_of_int \<bar>min (uint (B base) - (30 + k)) 255\<bar>,
                  A = 255\<rparr>, r2)) \<and>
   ((30::int) \<le> 284 \<and> (284::int) \<le> 284) \<and>
   (\<exists>r0 base r1 r2. randColor r0 = Return (base, r1) \<and> Intn 255 r1 = Return (284 - 30, r2))"
  using randDeepColor_channels[of "sconst 7" word_of_int 284] by simp

section \<open>SaveImage\<close>

text \<open>
  C6. For a format that is none of \<open>ImageFormatPng\<close>, \<open>ImageFormatJpeg\<close> and
  \<open>ImageFormatGif\<close>, \<open>SaveImage\<close> returns the error "not supported image format" and
  calls no encoder: the writer and the canvas, every pixel of it, are as before.
\<close>

theorem SaveImage_unsupported:
  assumes "imageFormat \<noteq> ImageFormatPng" "imageFormat \<noteq> ImageFormatJpeg"
    "imageFormat \<noteq> ImageFormatGif"
  shows "SaveImage env captcha w imageFormat =
           (Some (errors_New ''not supported image format''), w, captcha)"
  using assms by (simp add: SaveImage_def)

theorem SaveImage_unsupported_witness:
  "(3::int) \<noteq> ImageFormatPng \<and> (3::int) \<noteq> ImageFormatJpeg \<and> (3::int) \<noteq> ImageFormatGif \<and>
   SaveImage env0 (canvas 4 4 white) [] 3 =
     (Some (errors_New ''not supported image format''), [], canvas 4 4 white)"
proof -
  have f: "(3::int) \<noteq> ImageFormatPng" "(3::int) \<noteq> ImageFormatJpeg" "(3::int) \<noteq> ImageFormatGif"
    by (simp_all add: ImageFormatPng_def ImageFormatJpeg_def ImageFormatGif_def)
  show ?thesis
    using f SaveImage_unsupported[OF f, of env0 "canvas 4 4 white" "[]"] by simp
qed




section \<open>RandFontFamily\<close>

text \<open>
  C7, at the code. With an empty \<open>fontFamily\<close>, which is the state of the package
  before a font is registered, the call \<open>rand.Intn(0)\<close> panics:
  \<open>RandFontFamily\<close> returns neither a font nor an error value. With a font registered
  it returns; the file chosen is the one at the index drawn, and the result is the
  zero font with the error of reading that file if reading fails, the zero font with
  the error of parsing its bytes if parsing fails, and the parsed font with no error
  otherwise.
\<close>

theorem RandFontFamily_empty:
  "(fontFamily env = [] \<longrightarrow> RandFontFamily env r = Panic ''invalid argument to Intn'') \<and>
   (fontFamily env \<noteq> [] \<longrightarrow>
      (let fontFile = fontFamily env ! nat (int (shd r) mod int (length (fontFamily env)));
           readErr = snd (ReadFile env fontFile);
           parsed = ParseFont env (fst (ReadFile env fontFile))
       in RandFontFamily env r =
            Return ((if readErr \<noteq> None then (ZeroFont, readErr)
                     else if snd parsed \<noteq> None then (ZeroFont, snd parsed)
                     else (fst parsed, None)), stl r)))"
proof (intro conjI impI)
  assume "fontFamily env = []"
  then show "RandFontFamily env r = Panic ''invalid argument to Intn''"
    by (simp add: RandFontFamily_def Intn_def)
next
  assume ne: "fontFamily env \<noteq> []"
  have i: "Intn (int (length (fontFamily env))) r =
             Return (int (shd r) mod int (length (fontFamily env)), stl r)"
    using ne by (simp add: Intn_def)
  show "let fontFile = fontFamily env ! nat (int (shd r) mod int (length (fontFamily env)));
           readErr = snd (ReadFile env fontFile);
           parsed = ParseFont env (fst (ReadFile env fontFile))
       in RandFontFamily env r =
            Return ((if readErr \<noteq> None then (ZeroFont, readErr)
                     else if snd parsed \<noteq> None then (ZeroFont, snd parsed)
                     else (fst parsed, None)), stl r)"
    by (auto simp: RandFontFamily_def i Let_def split: prod.splits)
qed

theorem RandFontFamily_empty_witness:
  "fontFamily (env0\<lparr>fontFamily := []\<rparr>) = [] \<and>
   RandFontFamily (env0\<lparr>fontFamily := []\<rparr>) (sconst 0) = Panic ''invalid argument to Intn'' \<and>
   fontFamily (env0\<lparr>ReadFile := (\<lambda>p. ([], Some (ReadFile_error p)))\<rparr>) \<noteq> [] \<and>
   RandFontFamily (env0\<lparr>ReadFile := (\<lambda>p. ([], Some (ReadFile_error p)))\<rparr>) (sconst 0)
     = Return ((ZeroFont, Some (ReadFile_error ''a.ttf'')), sconst 0) \<and>
   fontFamily env0 \<noteq> [] \<and>
   RandFontFamily env0 (sconst 0) = Return ((ParsedFont ''a.ttf'', None), sconst 0)"
  using RandFontFamily_empty[of "env0\<lparr>fontFamily := []\<rparr>" "sconst 0"]
    RandFontFamily_empty[of "env0\<lparr>ReadFile := (\<lambda>p. ([], Some (ReadFile_error p)))\<rparr>" "sconst 0"]
    RandFontFamily_empty[of env0 "sconst 0"]
  by (simp add: env0_def Let_def)

text \<open>
  With the package as it starts (no font registered) the result is a panic, not a
  returned error.
\<close>

lemma RandFontFamily_no_font_panics:
  "RandFontFamily (env0\<lparr>fontFamily := []\<rparr>) (sconst 0) = Panic ''invalid argument to Intn'' \<and>
   (\<forall>f err r'. RandFontFamily (env0\<lparr>fontFamily := []\<rparr>) (sconst 0) \<noteq> Return ((f, err), r'))"
  by (simp add: env0_def RandFontFamily_def Intn_def)

section \<open>The stored error\<close>

text \<open>
  C1. On a canvas that stores an error, each of the seven drawing operations returns at
  its first statement: the canvas it returns is the canvas it was given, with every
  pixel and the stored error as they were, and no random value is drawn.
\<close>

theorem sticky_error:
  assumes "Error captcha = Some e"
  shows "DrawBorder captcha borderColor = captcha \<and>
         DrawHollowLine env captcha r = Return (captcha, r) \<and>
         DrawSineLine env captcha r = Return (captcha, r) \<and>
         DrawLine env captcha r num = Return (captcha, r) \<and>
         DrawNoise captcha r complex = Return (captcha, r) \<and>
         DrawTextNoise env captcha r complex = Return (captcha, r) \<and>
         DrawText env captcha r text = Return (captcha, r)"
  using assms
  by (simp add: DrawBorder_def DrawHollowLine_def DrawSineLine_def DrawLine_def
      DrawNoise_def DrawTextNoise_def DrawText_def)

theorem sticky_error_witness:
  "Error failedCanvas = Some (DrawString_error ''draw'') \<and>
   DrawBorder failedCanvas black = failedCanvas \<and>
   DrawHollowLine env0 failedCanvas (sconst 0) = Return (failedCanvas, sconst 0) \<and>
   DrawSineLine env0 failedCanvas (sconst 0) = Return (failedCanvas, sconst 0) \<and>
   DrawLine env0 failedCanvas (sconst 0) 3 = Return (failedCanvas, sconst 0) \<and>
   DrawNoise failedCanvas (sconst 0) CaptchaComplexLower = Return (failedCanvas, sconst 0) \<and>
   DrawTextNoise env0 failedCanvas (sconst 0) CaptchaComplexLower
     = Return (failedCanvas, sconst 0) \<and>
   DrawText env0 failedCanvas (sconst 0) ''ab'' = Return (failedCanvas, sconst 0)"
proof -
  have e: "Error failedCanvas = Some (DrawString_error ''draw'')"
    by (simp add: failedCanvas_def)
  show ?thesis
    using e sticky_error[OF e, of black env0 "sconst 0" 3 CaptchaComplexLower "''ab''"]
    by simp
qed

section \<open>DrawText and the empty text\<close>

text \<open>
  C10. On a canvas with no stored error, \<open>DrawText\<close> with the empty text panics at
  \<open>captcha.width / len(text)\<close>: it does not return, so no error is recorded on the
  canvas. With a text that is not empty that division is defined, and the loop over the
  characters starts with \<open>fontWidth = width / len(text)\<close>.
\<close>

theorem DrawText_empty_text:
  assumes "Error captcha = None"
  shows "DrawText env captcha r [] = Panic ''runtime error: integer divide by zero'' \<and>
         (text \<noteq> [] \<longrightarrow>
            go_div (width captcha) (int (length text))
              = Return (quo (width captcha) (int (length text))) \<and>
            DrawText env captcha r text =
              DrawText_loop env (quo (width captcha) (int (length text))) (runes env text)
                captcha r)"
  using assms by (simp add: DrawText_def go_div_def)

theorem DrawText_empty_text_witness:
  "Error (canvas 8 8 white) = None \<and>
   DrawText env0 (canvas 8 8 white) (sconst 0) [] = Panic ''runtime error: integer divide by zero'' \<and>
   ''ab'' \<noteq> [] \<and>
   go_div (width (canvas 8 8 white)) (int (length ''ab'')) = Return 4"
proof -
  have e: "Error (canvas 8 8 white) = None" by (simp add: canvas_def Let_def)
  show ?thesis
    using e DrawText_empty_text[OF e, of env0 "sconst 0" "''ab''"]
    by (simp add: canvas_def Let_def quo_def)
qed

section \<open>DrawSineLine\<close>

lemma andThen_Return_iff:
  "andThen m k = Return v \<longleftrightarrow> (\<exists>u. m = Return u \<and> k u = Return v)"
  by (cases m) auto

lemma fold_Set_Rect:
  "Rect (fold (\<lambda>i. NRGBA_Set (fx i) (fy i) c) js img) = Rect img"
  by (induction js arbitrary: img) (simp_all add: Rect_NRGBA_Set)

lemma fold_Set_Pix:
  "Pix (fold (\<lambda>i. NRGBA_Set (fx i) (fy i) c) js img) x y =
     (if (\<exists>i \<in> set js. x = fx i \<and> y = fy i) \<and> In x y (Rect img) then nrgbaModel c
      else Pix img x y)"
proof (induction js arbitrary: img)
  case Nil
  then show ?case by simp
next
  case (Cons j js)
  show ?case
    by (simp add: Cons.IH Rect_NRGBA_Set Pix_NRGBA_Set) blast
qed

lemma sine_column_Rect: "Rect (sine_column env captcha a b f w c px img) = Rect img"
  by (simp add: sine_column_def Let_def fold_Set_Rect)

lemma sine_column_Pix:
  "Pix (sine_column env captcha a b f w c px img) x y =
     (if \<not> f_eq env w (f_of_int env 0) \<and>
         (\<exists>i. 1 \<le> i \<and> i \<le> quo (height captcha) 5 \<and> x = px + i) \<and>
         y = f_trunc env (sine_py env a b f w (width captcha) px) \<and> In x y (Rect img)
      then nrgbaModel c else Pix img x y)"
  by (auto simp: sine_column_def Let_def fold_Set_Pix)

lemma fold_sine_column_Rect:
  "Rect (fold (sine_column env captcha a b f w c) pxs img) = Rect img"
  by (induction pxs arbitrary: img) (simp_all add: sine_column_Rect)

lemma fold_sine_column_Pix:
  "Pix (fold (sine_column env captcha a b f w c) pxs img) x y =
     (if \<not> f_eq env w (f_of_int env 0) \<and>
         (\<exists>px \<in> set pxs. \<exists>i. 1 \<le> i \<and> i \<le> quo (height captcha) 5 \<and> x = px + i \<and>
            y = f_trunc env (sine_py env a b f w (width captcha) px)) \<and> In x y (Rect img)
      then nrgbaModel c else Pix img x y)"
proof (induction pxs arbitrary: img)
  case Nil
  then show ?case by simp
next
  case (Cons p pxs)
  show ?case
    by (simp add: Cons.IH sine_column_Rect sine_column_Pix) blast
qed

lemma Intn_range: "Intn n r = Return (k, r') \<Longrightarrow> 0 \<le> k \<and> k < n"
  by (auto simp: Intn_def split: if_splits)

lemma uint_Intn_150:
  assumes "Intn 150 r = Return (k, r')"
  shows "uint (word_of_int k :: 8 word) < 150"
proof -
  have "0 \<le> k \<and> k < 150" using Intn_range[OF assms] .
  then show ?thesis by (simp add: uint_word_of_int_8)
qed

text \<open>
  The run of \<open>DrawSineLine\<close> on a canvas with no stored error, written as one
  equivalence: the call returns exactly when its eight draws return, and then with the
  buffer the two loops leave.
\<close>

lemma DrawSineLine_Return_iff:
  assumes "Error captcha = None"
  shows "DrawSineLine env captcha r = Return (captcha', r') \<longleftrightarrow>
    (\<exists>a r1 b r2 f r3 t r4 p2 r5 cr r6 cg r7 cb.
       Intn (quo (height captcha) 2) r = Return (a, r1) \<and>
       Random env (quo (- height captcha) 4) (quo (height captcha) 4) r1 = Return (b, r2) \<and>
       Random env (quo (- height captcha) 4) (quo (height captcha) 4) r2 = Return (f, r3) \<and>
       (if height captcha > quo (width captcha) 2
        then Random env (quo (width captcha) 2) (height captcha) r3
        else Random env (height captcha) (quo (width captcha) 2) r3) = Return (t, r4) \<and>
       Random env (f_trunc env (f_mul env (f_of_int env (width captcha)) (f_0_8 env)))
         (width captcha) r4 = Return (p2, r5) \<and>
       Intn 150 r5 = Return (cr, r6) \<and> Intn 150 r6 = Return (cg, r7) \<and>
       Intn 150 r7 = Return (cb, r') \<and>
       captcha\<lparr>nrgba :=
         fold (sine_column env captcha a b f (f_div env (f_2pi env) t)
                 \<lparr>R = word_of_int cr, G = word_of_int cg, B = word_of_int cb, A = 255\<rparr>)
              [0..f_trunc env p2 - 1] (nrgba captcha)\<rparr> = captcha')"
  using assms unfolding DrawSineLine_def
  by (simp add: andThen_Return_iff Let_def split: prod.splits)

lemma DrawSineLine_ReturnE:
  assumes "Error captcha = None" "DrawSineLine env captcha r = Return (captcha', r')"
  obtains a r1 b r2 f r3 t r4 p2 r5 cr r6 cg r7 cb where
    "Intn (quo (height captcha) 2) r = Return (a, r1)"
    "Random env (quo (- height captcha) 4) (quo (height captcha) 4) r1 = Return (b, r2)"
    "Random env (quo (- height captcha) 4) (quo (height captcha) 4) r2 = Return (f, r3)"
    "(if height captcha > quo (width captcha) 2
      then Random env (quo (width captcha) 2) (height captcha) r3
      else Random env (height captcha) (quo (width captcha) 2) r3) = Return (t, r4)"
    "Random env (f_trunc env (f_mul env (f_of_int env (width captcha)) (f_0_8 env)))
       (width captcha) r4 = Return (p2, r5)"
    "Intn 150 r5 = Return (cr, r6)" "Intn 150 r6 = Return (cg, r7)"
    "Intn 150 r7 = Return (cb, r')"
    "captcha\<lparr>nrgba :=
         fold (sine_column env captcha a b f (f_div env (f_2pi env) t)
                 \<lparr>R = word_of_int cr, G = word_of_int cg, B = word_of_int cb, A = 255\<rparr>)
              [0..f_trunc env p2 - 1] (nrgba captcha)\<rparr> = captcha'"
  using iffD1[OF DrawSineLine_Return_iff[OF assms(1)] assms(2)]
  by (elim exE conjE) (rule that; assumption)

lemma DrawSineLine_ReturnI:
  assumes "Error captcha = None"
    "Intn (quo (height captcha) 2) r = Return (a, r1)"
    "Random env (quo (- height captcha) 4) (quo (height captcha) 4) r1 = Return (b, r2)"
    "Random env (quo (- height captcha) 4) (quo (height captcha) 4) r2 = Return (f, r3)"
    "(if height captcha > quo (width captcha) 2
      then Random env (quo (width captcha) 2) (height captcha) r3
      else Random env (height captcha) (quo (width captcha) 2) r3) = Return (t, r4)"
    "Random env (f_trunc env (f_mul env (f_of_int env (width captcha)) (f_0_8 env)))
       (width captcha) r4 = Return (p2, r5)"
    "Intn 150 r5 = Return (cr, r6)" "Intn 150 r6 = Return (cg, r7)"
    "Intn 150 r7 = Return (cb, r')"
    "captcha\<lparr>nrgba :=
         fold (sine_column env captcha a b f (f_div env (f_2pi env) t)
                 \<lparr>R = word_of_int cr, G = word_of_int cg, B = word_of_int cb, A = 255\<rparr>)
              [0..f_trunc env p2 - 1] (nrgba captcha)\<rparr> = captcha'"
  shows "DrawSineLine env captcha r = Return (captcha', r')"
  unfolding DrawSineLine_Return_iff[OF assms(1)]
  by (intro exI conjI) (rule assms(2-10))+

lemma sine_fold_unique:
  assumes "A c = 255"
  shows "img' = fold (sine_column env captcha a b f w c) [0..px2 - 1] img \<longleftrightarrow>
     Rect img' = Rect img \<and>
     (\<forall>x y. Pix img' x y =
        (if In x y (Rect img) \<and> \<not> f_eq env w (f_of_int env 0) \<and>
            (\<exists>px i. 0 \<le> px \<and> px < px2 \<and> 1 \<le> i \<and> i \<le> quo (height captcha) 5 \<and>
               x = px + i \<and> y = f_trunc env (sine_py env a b f w (width captcha) px))
         then c else Pix img x y))"
proof -
  have e: "(\<exists>px \<in> set [0..px2 - 1]. \<exists>i. 1 \<le> i \<and> i \<le> quo (height captcha) 5 \<and> x = px + i \<and>
               y = f_trunc env (sine_py env a b f w (width captcha) px)) \<longleftrightarrow>
          (\<exists>px i. 0 \<le> px \<and> px < px2 \<and> 1 \<le> i \<and> i \<le> quo (height captcha) 5 \<and>
               x = px + i \<and> y = f_trunc env (sine_py env a b f w (width captcha) px))" for x y
    by auto
  have pix: "Pix (fold (sine_column env captcha a b f w c) [0..px2 - 1] img) x y =
        (if In x y (Rect img) \<and> \<not> f_eq env w (f_of_int env 0) \<and>
            (\<exists>px i. 0 \<le> px \<and> px < px2 \<and> 1 \<le> i \<and> i \<le> quo (height captcha) 5 \<and>
               x = px + i \<and> y = f_trunc env (sine_py env a b f w (width captcha) px))
         then c else Pix img x y)" for x y
    unfolding fold_sine_column_Pix e nrgbaModel_opaque[OF assms] by auto
  show ?thesis
  proof
    assume "img' = fold (sine_column env captcha a b f w c) [0..px2 - 1] img"
    then show "Rect img' = Rect img \<and>
     (\<forall>x y. Pix img' x y =
        (if In x y (Rect img) \<and> \<not> f_eq env w (f_of_int env 0) \<and>
            (\<exists>px i. 0 \<le> px \<and> px < px2 \<and> 1 \<le> i \<and> i \<le> quo (height captcha) 5 \<and>
               x = px + i \<and> y = f_trunc env (sine_py env a b f w (width captcha) px))
         then c else Pix img x y))"
      using pix by (simp add: fold_sine_column_Rect)
  next
    assume r: "Rect img' = Rect img \<and>
     (\<forall>x y. Pix img' x y =
        (if In x y (Rect img) \<and> \<not> f_eq env w (f_of_int env 0) \<and>
            (\<exists>px i. 0 \<le> px \<and> px < px2 \<and> 1 \<le> i \<and> i \<le> quo (height captcha) 5 \<and>
               x = px + i \<and> y = f_trunc env (sine_py env a b f w (width captcha) px))
         then c else Pix img x y))"
    show "img' = fold (sine_column env captcha a b f w c) [0..px2 - 1] img"
    proof (rule NRGBA_eqI)
      show "Pix img' = Pix (fold (sine_column env captcha a b f w c) [0..px2 - 1] img)"
        using r pix by (intro ext) simp
      show "Rect img' = Rect (fold (sine_column env captcha a b f w c) [0..px2 - 1] img)"
        using r by (simp add: fold_sine_column_Rect)
    qed
  qed
qed

lemma canvas_nrgba_eq:
  "captcha' = captcha\<lparr>nrgba := img\<rparr> \<longleftrightarrow>
     captcha' = captcha\<lparr>nrgba := nrgba captcha'\<rparr> \<and> nrgba captcha' = img"
  by (cases captcha, cases captcha') auto

text \<open>
  C8, as the code has it. On a canvas with no stored error, \<open>DrawSineLine\<close> returns
  exactly when its draws return: the amplitude \<open>a\<close> from \<open>rand.Intn(height / 2)\<close>, the
  offsets \<open>b\<close> and \<open>f\<close> and the period \<open>t\<close> from \<open>Random\<close>, the end \<open>px2 = int(p2)\<close> of
  the horizontal extent from \<open>Random\<close> between \<open>0.8 * width\<close> and \<open>width\<close>, and the three
  channels of the colour from \<open>rand.Intn(150)\<close>, drawn once before the loop. The canvas
  returned differs from the one given in the pixel buffer only, and there it has, for
  each \<open>px\<close> of \<open>[0, px2)\<close>, a run of \<open>height / 5\<close> pixels of that colour in the row
  \<open>int(py)\<close> of the curve at \<open>px\<close>, at the columns \<open>px + 1\<close> to \<open>px + height / 5\<close>: the
  run lies along \<open>x\<close>, to the right of \<open>px\<close>. Nothing is drawn when \<open>w\<close> is zero, and
  every other pixel is as before.
\<close>

theorem DrawSineLine_runs:
  assumes "Error captcha = None"
  shows "DrawSineLine env captcha r = Return (captcha', r') \<longleftrightarrow>
    (\<exists>a r1 b r2 f r3 t r4 p2 r5 cr r6 cg r7 cb.
       Intn (quo (height captcha) 2) r = Return (a, r1) \<and>
       Random env (quo (- height captcha) 4) (quo (height captcha) 4) r1 = Return (b, r2) \<and>
       Random env (quo (- height captcha) 4) (quo (height captcha) 4) r2 = Return (f, r3) \<and>
       (if height captcha > quo (width captcha) 2
        then Random env (quo (width captcha) 2) (height captcha) r3
        else Random env (height captcha) (quo (width captcha) 2) r3) = Return (t, r4) \<and>
       Random env (f_trunc env (f_mul env (f_of_int env (width captcha)) (f_0_8 env)))
         (width captcha) r4 = Return (p2, r5) \<and>
       Intn 150 r5 = Return (cr, r6) \<and> Intn 150 r6 = Return (cg, r7) \<and>
       Intn 150 r7 = Return (cb, r') \<and>
       0 \<le> a \<and> a < quo (height captcha) 2 \<and>
       uint (word_of_int cr :: 8 word) < 150 \<and> uint (word_of_int cg :: 8 word) < 150 \<and>
       uint (word_of_int cb :: 8 word) < 150 \<and>
       captcha' = captcha\<lparr>nrgba := nrgba captcha'\<rparr> \<and>
       Rect (nrgba captcha') = Rect (nrgba captcha) \<and>
       (\<forall>x y. Pix (nrgba captcha') x y =
          (if In x y (Rect (nrgba captcha)) \<and>
              \<not> f_eq env (f_div env (f_2pi env) t) (f_of_int env 0) \<and>
              (\<exists>px i. 0 \<le> px \<and> px < f_trunc env p2 \<and> 1 \<le> i \<and>
                 i \<le> quo (height captcha) 5 \<and> x = px + i \<and>
                 y = f_trunc env
                       (sine_py env a b f (f_div env (f_2pi env) t) (width captcha) px))
           then \<lparr>R = word_of_int cr, G = word_of_int cg, B = word_of_int cb, A = 255\<rparr>
           else Pix (nrgba captcha) x y)))"
  (is "?L \<longleftrightarrow> ?R")
proof
  assume l: ?L
  from DrawSineLine_ReturnE[OF assms l]
  obtain a r1 b r2 f r3 t r4 p2 r5 cr r6 cg r7 cb where
    d: "Intn (quo (height captcha) 2) r = Return (a, r1)"
       "Random env (quo (- height captcha) 4) (quo (height captcha) 4) r1 = Return (b, r2)"
       "Random env (quo (- height captcha) 4) (quo (height captcha) 4) r2 = Return (f, r3)"
       "(if height captcha > quo (width captcha) 2
        then Random env (quo (width captcha) 2) (height captcha) r3
        else Random env (height captcha) (quo (width captcha) 2) r3) = Return (t, r4)"
       "Random env (f_trunc env (f_mul env (f_of_int env (width captcha)) (f_0_8 env)))
         (width captcha) r4 = Return (p2, r5)"
       "Intn 150 r5 = Return (cr, r6)" "Intn 150 r6 = Return (cg, r7)"
       "Intn 150 r7 = Return (cb, r')" and
    c: "captcha\<lparr>nrgba :=
         fold (sine_column env captcha a b f (f_div env (f_2pi env) t)
                 \<lparr>R = word_of_int cr, G = word_of_int cg, B = word_of_int cb, A = 255\<rparr>)
              [0..f_trunc env p2 - 1] (nrgba captcha)\<rparr> = captcha'" .
  note nn = iffD1[OF canvas_nrgba_eq c[symmetric]]
  note n = nn[THEN conjunct1] nn[THEN conjunct2]
  have u: "Rect (nrgba captcha') = Rect (nrgba captcha) \<and>
       (\<forall>x y. Pix (nrgba captcha') x y =
          (if In x y (Rect (nrgba captcha)) \<and>
              \<not> f_eq env (f_div env (f_2pi env) t) (f_of_int env 0) \<and>
              (\<exists>px i. 0 \<le> px \<and> px < f_trunc env p2 \<and> 1 \<le> i \<and>
                 i \<le> quo (height captcha) 5 \<and> x = px + i \<and>
                 y = f_trunc env
                       (sine_py env a b f (f_div env (f_2pi env) t) (width captcha) px))
           then \<lparr>R = word_of_int cr, G = word_of_int cg, B = word_of_int cb, A = 255\<rparr>
           else Pix (nrgba captcha) x y))"
    using n(2) by (subst (asm) sine_fold_unique) simp_all
  note a = Intn_range[OF d(1)]
  show ?R
    by (intro exI conjI)
       (rule d a[THEN conjunct1] a[THEN conjunct2] uint_Intn_150[OF d(6)]
          uint_Intn_150[OF d(7)] uint_Intn_150[OF d(8)] n(1) u[THEN conjunct1]
          u[THEN conjunct2])+
next
  assume r: ?R
  have "\<And>a r1 b r2 f r3 t r4 p2 r5 cr r6 cg r7 cb.
       Intn (quo (height captcha) 2) r = Return (a, r1) \<Longrightarrow>
       Random env (quo (- height captcha) 4) (quo (height captcha) 4) r1 = Return (b, r2) \<Longrightarrow>
       Random env (quo (- height captcha) 4) (quo (height captcha) 4) r2 = Return (f, r3) \<Longrightarrow>
       (if height captcha > quo (width captcha) 2
        then Random env (quo (width captcha) 2) (height captcha) r3
        else Random env (height captcha) (quo (width captcha) 2) r3) = Return (t, r4) \<Longrightarrow>
       Random env (f_trunc env (f_mul env (f_of_int env (width captcha)) (f_0_8 env)))
         (width captcha) r4 = Return (p2, r5) \<Longrightarrow>
       Intn 150 r5 = Return (cr, r6) \<Longrightarrow> Intn 150 r6 = Return (cg, r7) \<Longrightarrow>
       Intn 150 r7 = Return (cb, r') \<Longrightarrow>
       captcha' = captcha\<lparr>nrgba := nrgba captcha'\<rparr> \<Longrightarrow>
       Rect (nrgba captcha') = Rect (nrgba captcha) \<Longrightarrow>
       (\<forall>x y. Pix (nrgba captcha') x y =
          (if In x y (Rect (nrgba captcha)) \<and>
              \<not> f_eq env (f_div env (f_2pi env) t) (f_of_int env 0) \<and>
              (\<exists>px i. 0 \<le> px \<and> px < f_trunc env p2 \<and> 1 \<le> i \<and>
                 i \<le> quo (height captcha) 5 \<and> x = px + i \<and>
                 y = f_trunc env
                       (sine_py env a b f (f_div env (f_2pi env) t) (width captcha) px))
           then \<lparr>R = word_of_int cr, G = word_of_int cg, B = word_of_int cb, A = 255\<rparr>
           else Pix (nrgba captcha) x y)) \<Longrightarrow> ?L"
  proof -
    fix a r1 b r2 f r3 t r4 p2 r5 cr r6 cg r7 cb
    assume d: "Intn (quo (height captcha) 2) r = Return (a, r1)"
       "Random env (quo (- height captcha) 4) (quo (height captcha) 4) r1 = Return (b, r2)"
       "Random env (quo (- height captcha) 4) (quo (height captcha) 4) r2 = Return (f, r3)"
       "(if height captcha > quo (width captcha) 2
        then Random env (quo (width captcha) 2) (height captcha) r3
        else Random env (height captcha) (quo (width captcha) 2) r3) = Return (t, r4)"
       "Random env (f_trunc env (f_mul env (f_of_int env (width captcha)) (f_0_8 env)))
         (width captcha) r4 = Return (p2, r5)"
       "Intn 150 r5 = Return (cr, r6)" "Intn 150 r6 = Return (cg, r7)"
       "Intn 150 r7 = Return (cb, r')"
    assume n: "captcha' = captcha\<lparr>nrgba := nrgba captcha'\<rparr>"
    assume rect: "Rect (nrgba captcha') = Rect (nrgba captcha)"
    assume pix: "\<forall>x y. Pix (nrgba captcha') x y =
          (if In x y (Rect (nrgba captcha)) \<and>
              \<not> f_eq env (f_div env (f_2pi env) t) (f_of_int env 0) \<and>
              (\<exists>px i. 0 \<le> px \<and> px < f_trunc env p2 \<and> 1 \<le> i \<and>
                 i \<le> quo (height captcha) 5 \<and> x = px + i \<and>
                 y = f_trunc env
                       (sine_py env a b f (f_div env (f_2pi env) t) (width captcha) px))
           then \<lparr>R = word_of_int cr, G = word_of_int cg, B = word_of_int cb, A = 255\<rparr>
           else Pix (nrgba captcha) x y)"
    have "nrgba captcha' = fold (sine_column env captcha a b f (f_div env (f_2pi env) t)
                 \<lparr>R = word_of_int cr, G = word_of_int cg, B = word_of_int cb, A = 255\<rparr>)
              [0..f_trunc env p2 - 1] (nrgba captcha)"
      using rect pix by (subst sine_fold_unique) simp_all
    note c = iffD2[OF canvas_nrgba_eq, OF conjI[OF n this], symmetric]
    show ?L by (rule DrawSineLine_ReturnI[OF assms d c])
  qed
  with r show ?L by (elim exE conjE)
qed

lemma DrawSineLine_run0:
  "DrawSineLine env0 (canvas 10 10 black) (0 ## 2 ## 2 ## 0 ## 0 ## 100 ## 100 ## 100 ## sconst 0) =
     Return ((canvas 10 10 black)\<lparr>nrgba :=
        fold (sine_column env0 (canvas 10 10 black) 0 0 0 (2 * pi / 5)
               grey) [0..7] (nrgba (canvas 10 10 black))\<rparr>,
        sconst 0)"
  by (simp add: DrawSineLine_def canvas_def Let_def Intn_def quo_def env0_def Random_spec_def
      trunc_real_def grey_def)

lemma sine_py_run0: "f_trunc env0 (sine_py env0 0 0 0 w 10 px) = 2"
  by (simp add: sine_py_def env0_def trunc_real_def)

lemma run0_columns:
  "(\<exists>px \<in> set [0..7]. \<exists>i. 1 \<le> i \<and> i \<le> 2 \<and> x = px + i) \<longleftrightarrow> 1 \<le> x \<and> x \<le> (9::int)"
proof
  assume "\<exists>px \<in> set [0..7]. \<exists>i. 1 \<le> i \<and> i \<le> 2 \<and> x = px + i"
  then show "1 \<le> x \<and> x \<le> 9" by auto
next
  assume x: "1 \<le> x \<and> x \<le> 9"
  show "\<exists>px \<in> set [0..7]. \<exists>i. 1 \<le> i \<and> i \<le> 2 \<and> x = px + i"
  proof (cases "x \<le> 8")
    case True
    then show ?thesis using x by (intro bexI[of _ "x - 1"] exI[of _ 1]) auto
  next
    case False
    then show ?thesis using x by (intro bexI[of _ "x - 2"] exI[of _ 2]) auto
  qed
qed

lemma DrawSineLine_run0_Pix:
  assumes "0 \<le> x" "x < 10" "0 \<le> y" "y < 10"
  shows "pixelAfter (canvasOf (DrawSineLine env0 (canvas 10 10 black)
            (0 ## 2 ## 2 ## 0 ## 0 ## 100 ## 100 ## 100 ## sconst 0))) x y =
         Some (if y = 2 \<and> 1 \<le> x then grey else black)"
proof -
  have q: "quo (height (canvas 10 10 black)) 5 = 2" "width (canvas 10 10 black) = 10"
    by (simp_all add: canvas_def Let_def quo_def)
  have w: "\<not> f_eq env0 (2 * pi / 5) (f_of_int env0 0)" by (simp add: env0_def)
  have i: "In x y (Rect (nrgba (canvas 10 10 black)))"
    using assms by (simp add: canvas_def Let_def image_Rect_def In_def)
  have b: "Pix (nrgba (canvas 10 10 black)) x y = black"
    using assms by (simp add: canvas_def Let_def image_Rect_def In_def nrgbaModel_opaque setRGBA64Model_opaque black_def)
  have g: "nrgbaModel grey = grey" by (simp add: nrgbaModel_opaque grey_def)
  have "(\<exists>px \<in> set [0..7]. \<exists>i. 1 \<le> i \<and> i \<le> 2 \<and> x = px + i \<and> y = 2) \<longleftrightarrow>
        (\<exists>px \<in> set [0..7]. \<exists>i. 1 \<le> i \<and> i \<le> 2 \<and> x = px + i) \<and> y = 2"
    by blast
  also have "\<dots> \<longleftrightarrow> y = 2 \<and> 1 \<le> x"
    unfolding run0_columns using assms(2) by auto
  finally have ex:
    "(\<exists>px \<in> set [0..7]. \<exists>i. 1 \<le> i \<and> i \<le> quo (height (canvas 10 10 black)) 5 \<and> x = px + i \<and>
        y = f_trunc env0 (sine_py env0 0 0 0 (2 * pi / 5) (width (canvas 10 10 black)) px))
     \<longleftrightarrow> y = 2 \<and> 1 \<le> x"
    unfolding q sine_py_run0 .
  have P: "Pix (fold (sine_column env0 (canvas 10 10 black) 0 0 0 (2 * pi / 5) grey) [0..7]
                  (nrgba (canvas 10 10 black))) x y = (if y = 2 \<and> 1 \<le> x then grey else black)"
    unfolding fold_sine_column_Pix ex using w i b g by simp
  show ?thesis
    unfolding DrawSineLine_run0 by (simp add: pixelAfter_def canvasOf_def P)
qed

theorem DrawSineLine_runs_witness:
  "New 10 10 black = Return (canvas 10 10 black) \<and>
   Error (canvas 10 10 black) = None \<and>
   (\<exists>captcha'.
      DrawSineLine env0 (canvas 10 10 black)
        (0 ## 2 ## 2 ## 0 ## 0 ## 100 ## 100 ## 100 ## sconst 0) = Return (captcha', sconst 0) \<and>
      Rect (nrgba captcha') = Rect (nrgba (canvas 10 10 black)) \<and>
      (\<forall>x y. Pix (nrgba captcha') x y =
         (if In x y (Rect (nrgba (canvas 10 10 black))) \<and>
             (\<exists>px i. 0 \<le> px \<and> px < 8 \<and> 1 \<le> i \<and> i \<le> 2 \<and> x = px + i \<and> y = 2)
          then grey else Pix (nrgba (canvas 10 10 black)) x y)))"
proof -
  have e: "Error (canvas 10 10 black) = None" by (simp add: canvas_def Let_def)
  have q: "quo (height (canvas 10 10 black)) 5 = 2" "width (canvas 10 10 black) = 10"
    "height (canvas 10 10 black) = 10"
    by (simp_all add: canvas_def Let_def quo_def)
  define captcha' where "captcha' = (canvas 10 10 black)\<lparr>nrgba :=
        fold (sine_column env0 (canvas 10 10 black) 0 0 0 (2 * pi / 5) grey) [0..7]
          (nrgba (canvas 10 10 black))\<rparr>"
  have l: "DrawSineLine env0 (canvas 10 10 black)
          (0 ## 2 ## 2 ## 0 ## 0 ## 100 ## 100 ## 100 ## sconst 0) = Return (captcha', sconst 0)"
    by (simp add: captcha'_def DrawSineLine_run0)
  from iffD1[OF DrawSineLine_runs[OF e] l]
  obtain a r1 b r2 f r3 t r4 p2 r5 cr r6 cg r7 cb where
    d: "Intn (quo (height (canvas 10 10 black)) 2)
          (0 ## 2 ## 2 ## 0 ## 0 ## 100 ## 100 ## 100 ## sconst 0) = Return (a, r1)"
       "Random env0 (quo (- height (canvas 10 10 black)) 4)
          (quo (height (canvas 10 10 black)) 4) r1 = Return (b, r2)"
       "Random env0 (quo (- height (canvas 10 10 black)) 4)
          (quo (height (canvas 10 10 black)) 4) r2 = Return (f, r3)"
       "(if height (canvas 10 10 black) > quo (width (canvas 10 10 black)) 2
         then Random env0 (quo (width (canvas 10 10 black)) 2) (height (canvas 10 10 black)) r3
         else Random env0 (height (canvas 10 10 black)) (quo (width (canvas 10 10 black)) 2) r3)
          = Return (t, r4)"
       "Random env0 (f_trunc env0 (f_mul env0 (f_of_int env0 (width (canvas 10 10 black)))
          (f_0_8 env0))) (width (canvas 10 10 black)) r4 = Return (p2, r5)"
       "Intn 150 r5 = Return (cr, r6)" "Intn 150 r6 = Return (cg, r7)"
       "Intn 150 r7 = Return (cb, sconst 0)" and
    rect: "Rect (nrgba captcha') = Rect (nrgba (canvas 10 10 black))" and
    pix: "\<forall>x y. Pix (nrgba captcha') x y =
          (if In x y (Rect (nrgba (canvas 10 10 black))) \<and>
              \<not> f_eq env0 (f_div env0 (f_2pi env0) t) (f_of_int env0 0) \<and>
              (\<exists>px i. 0 \<le> px \<and> px < f_trunc env0 p2 \<and> 1 \<le> i \<and>
                 i \<le> quo (height (canvas 10 10 black)) 5 \<and> x = px + i \<and>
                 y = f_trunc env0
                       (sine_py env0 a b f (f_div env0 (f_2pi env0) t)
                          (width (canvas 10 10 black)) px))
           then \<lparr>R = word_of_int cr, G = word_of_int cg, B = word_of_int cb, A = 255\<rparr>
           else Pix (nrgba (canvas 10 10 black)) x y)"
    by blast
  have v: "a = 0 \<and> b = 0 \<and> f = 0 \<and> t = 5 \<and> p2 = 8 \<and> cr = 100 \<and> cg = 100 \<and> cb = 100"
    using d unfolding q
    by (auto simp: Intn_def quo_def env0_def Random_spec_def trunc_real_def)
  then have v': "a = 0" "b = 0" "f = 0" "t = 5" "p2 = 8" "cr = 100" "cg = 100" "cb = 100"
    by simp_all
  have w: "(\<not> f_eq env0 (f_div env0 (f_2pi env0) 5) (f_of_int env0 0)) = True"
    "f_trunc env0 8 = 8"
    by (simp_all add: env0_def trunc_real_def)
  have q10: "quo 10 5 = 2" by (simp add: quo_def)
  have g: "\<lparr>R = word_of_int 100, G = word_of_int 100, B = word_of_int 100, A = 255\<rparr> = grey"
    by (simp add: grey_def)
  from pix have "\<forall>x y. Pix (nrgba captcha') x y =
         (if In x y (Rect (nrgba (canvas 10 10 black))) \<and>
             (\<exists>px i. 0 \<le> px \<and> px < 8 \<and> 1 \<le> i \<and> i \<le> 2 \<and> x = px + i \<and> y = 2)
          then grey else Pix (nrgba (canvas 10 10 black)) x y)"
    unfolding v' q q10 w sine_py_run0 g by (simp only: simp_thms)
  then show ?thesis
    using e l rect by (auto simp: New_Return)
qed

text \<open>
  The claim as stated fails. On a 10 by 10 black canvas, with the draws that give
  amplitude 0, offsets 0, period 5, \<open>px2 = 8\<close> and the colour \<open>grey\<close>, the curve is the
  row \<open>int(py) = 2\<close>. At \<open>x = 5\<close> the pixel \<open>(5, 2)\<close> is grey and the pixels above and
  below it, \<open>(5, 1)\<close> and \<open>(5, 3)\<close>, stay black: there is no vertical run of
  \<open>height / 5 = 2\<close> pixels. The pixel \<open>(0, 2)\<close> stays black although \<open>x = 0\<close> is in
  \<open>[0, px2)\<close>, and \<open>(9, 2)\<close> is grey although \<open>x = 9\<close> is not.
\<close>

theorem DrawSineLine_runs_counterexample:
  "pixelAfter (canvasOf (DrawSineLine env0 (canvas 10 10 black)
      (0 ## 2 ## 2 ## 0 ## 0 ## 100 ## 100 ## 100 ## sconst 0))) 5 2 = Some grey \<and>
   pixelAfter (canvasOf (DrawSineLine env0 (canvas 10 10 black)
      (0 ## 2 ## 2 ## 0 ## 0 ## 100 ## 100 ## 100 ## sconst 0))) 5 1 = Some black \<and>
   pixelAfter (canvasOf (DrawSineLine env0 (canvas 10 10 black)
      (0 ## 2 ## 2 ## 0 ## 0 ## 100 ## 100 ## 100 ## sconst 0))) 5 3 = Some black \<and>
   pixelAfter (canvasOf (DrawSineLine env0 (canvas 10 10 black)
      (0 ## 2 ## 2 ## 0 ## 0 ## 100 ## 100 ## 100 ## sconst 0))) 0 2 = Some black \<and>
   pixelAfter (canvasOf (DrawSineLine env0 (canvas 10 10 black)
      (0 ## 2 ## 2 ## 0 ## 0 ## 100 ## 100 ## 100 ## sconst 0))) 9 2 = Some grey \<and>
   grey \<noteq> black"
  by (simp add: DrawSineLine_run0_Pix) (simp add: grey_def black_def)

end
